theory Spec2Isabelle
  imports Complex_Main
begin

section \<open>Heat exchanger design tool: the calculation of \<^verbatim>\<open>app.py\<close>\<close>

text \<open>
  The script reads nine numbers and a flow configuration from its form, computes heat
  duty, LMTD, area, capacity rates, effectiveness, NTU and the heat balance error in
  module-level statements (lines 165 to 201), classifies the effectiveness (lines 15 to
  26) and samples a linear temperature profile (lines 237 to 244).

  Numbers. The calculation block is first read in exact arithmetic: a Python \<open>float\<close> is
  a real number, and rounding, overflow and underflow of IEEE doubles are left out, as is
  the sign of a zero. Every form field is a finite \<open>float\<close>, so a Python \<open>float\<close> of the
  script is always finite here. \<open>np.log\<close> returns an \<open>np.float64\<close>, which can be
  infinite or NaN; both signs of infinity are one value \<open>Inf\<close>.

  Where a property depends on the last digits (the end of the temperature profile, the
  cancellation of \<open>U\<close> in the NTU), the same statements are read a second time in double
  precision, each operation rounded to the nearest double.
\<close>

subsection \<open>Values and arithmetic\<close>

datatype error = ZeroDivisionError

datatype npfloat = Fin real | Inf | NaN

text \<open>A value of a script variable: a Python \<open>float\<close> or a NumPy \<open>np.float64\<close>.\<close>

datatype pyval = PyFloat real | NpFloat npfloat

text \<open>\<open>np.log\<close> of a Python \<open>float\<close>: \<open>-inf\<close> at zero and NaN below it, with a warning only.\<close>

definition np_log :: "real \<Rightarrow> npfloat" where
  "np_log x = (if 0 < x then Fin (ln x) else if x = 0 then Inf else NaN)"

fun np_mul :: "npfloat \<Rightarrow> npfloat \<Rightarrow> npfloat" where
  "np_mul NaN b = NaN"
| "np_mul a NaN = NaN"
| "np_mul Inf Inf = Inf"
| "np_mul Inf (Fin y) = (if y = 0 then NaN else Inf)"
| "np_mul (Fin x) Inf = (if x = 0 then NaN else Inf)"
| "np_mul (Fin x) (Fin y) = Fin (x * y)"

fun np_div :: "npfloat \<Rightarrow> npfloat \<Rightarrow> npfloat" where
  "np_div NaN b = NaN"
| "np_div a NaN = NaN"
| "np_div Inf Inf = NaN"
| "np_div Inf (Fin y) = Inf"
| "np_div (Fin x) Inf = Fin 0"
| "np_div (Fin x) (Fin y) = (if y = 0 then (if x = 0 then NaN else Inf) else Fin (x / y))"

fun to_np :: "pyval \<Rightarrow> npfloat" where
  "to_np (PyFloat x) = Fin x"
| "to_np (NpFloat v) = v"

text \<open>
  \<open>a * b\<close> and \<open>a / b\<close>. Between two Python floats the division raises on a zero
  divisor; as soon as one operand is an \<open>np.float64\<close> NumPy computes the result, which
  is an \<open>np.float64\<close> and never an exception.
\<close>

fun py_mul :: "pyval \<Rightarrow> pyval \<Rightarrow> pyval" where
  "py_mul (PyFloat x) (PyFloat y) = PyFloat (x * y)"
| "py_mul a b = NpFloat (np_mul (to_np a) (to_np b))"

fun py_div :: "pyval \<Rightarrow> pyval \<Rightarrow> error + pyval" where
  "py_div (PyFloat x) (PyFloat y) = (if y = 0 then Inl ZeroDivisionError else Inr (PyFloat (x / y)))"
| "py_div a b = Inr (NpFloat (np_div (to_np a) (to_np b)))"

definition float_div :: "real \<Rightarrow> real \<Rightarrow> error + real" where
  "float_div x y = (if y = 0 then Inl ZeroDivisionError else Inr (x / y))"

definition bind_err :: "error + 'a \<Rightarrow> ('a \<Rightarrow> error + 'b) \<Rightarrow> error + 'b" where
  "bind_err m f = (case m of Inl e \<Rightarrow> Inl e | Inr v \<Rightarrow> f v)"

fun finite_val :: "pyval \<Rightarrow> bool" where
  "finite_val (PyFloat x) = True"
| "finite_val (NpFloat (Fin x)) = True"
| "finite_val (NpFloat Inf) = False"
| "finite_val (NpFloat NaN) = False"

subsection \<open>Double precision\<close>

text \<open>
  IEEE 754 binary64 with the default rounding: the result of an operation is the exact
  result rounded to the nearest number with a 53-bit significand, a tie going to the even
  significand. The exponent is not bounded here, so overflow to infinity and subnormal
  numbers are left out. A double is a real number that rounding leaves unchanged.
\<close>

definition round_even :: "real \<Rightarrow> int" where
  "round_even y =
     (let f = \<lfloor>y\<rfloor>; d = y - of_int f
      in if d < 1 / 2 then f else if 1 / 2 < d then f + 1
         else if even f then f else f + 1)"

definition rnd :: "real \<Rightarrow> real" where
  "rnd x =
     (if x = 0 then 0
      else let e = \<lfloor>log 2 \<bar>x\<bar>\<rfloor> - 52
           in of_int (round_even (x / 2 powr of_int e)) * 2 powr of_int e)"

definition is_double :: "real \<Rightarrow> bool" where
  "is_double x \<longleftrightarrow> rnd x = x"

fun np_mul_double :: "npfloat \<Rightarrow> npfloat \<Rightarrow> npfloat" where
  "np_mul_double NaN b = NaN"
| "np_mul_double a NaN = NaN"
| "np_mul_double Inf Inf = Inf"
| "np_mul_double Inf (Fin y) = (if y = 0 then NaN else Inf)"
| "np_mul_double (Fin x) Inf = (if x = 0 then NaN else Inf)"
| "np_mul_double (Fin x) (Fin y) = Fin (rnd (x * y))"

fun np_div_double :: "npfloat \<Rightarrow> npfloat \<Rightarrow> npfloat" where
  "np_div_double NaN b = NaN"
| "np_div_double a NaN = NaN"
| "np_div_double Inf Inf = NaN"
| "np_div_double Inf (Fin y) = Inf"
| "np_div_double (Fin x) Inf = Fin 0"
| "np_div_double (Fin x) (Fin y) =
     (if y = 0 then (if x = 0 then NaN else Inf) else Fin (rnd (x / y)))"

fun py_mul_double :: "pyval \<Rightarrow> pyval \<Rightarrow> pyval" where
  "py_mul_double (PyFloat x) (PyFloat y) = PyFloat (rnd (x * y))"
| "py_mul_double a b = NpFloat (np_mul_double (to_np a) (to_np b))"

fun py_div_double :: "pyval \<Rightarrow> pyval \<Rightarrow> error + pyval" where
  "py_div_double (PyFloat x) (PyFloat y) =
     (if y = 0 then Inl ZeroDivisionError else Inr (PyFloat (rnd (x / y))))"
| "py_div_double a b = Inr (NpFloat (np_div_double (to_np a) (to_np b)))"

definition float_div_double :: "real \<Rightarrow> real \<Rightarrow> error + real" where
  "float_div_double x y = (if y = 0 then Inl ZeroDivisionError else Inr (rnd (x / y)))"

subsection \<open>Inputs and results\<close>

datatype flow_type = Counterflow | ParallelFlow

record exchanger_input =
  Th_in :: real
  Th_out :: real
  m_hot :: real
  Cp_hot :: real
  Tc_in :: real
  Tc_out :: real
  m_cold :: real
  Cp_cold :: real
  U :: real
  configuration :: flow_type

record exchanger_result =
  Q_hot :: real
  Q_cold :: real
  Q_avg :: real
  Q :: real
  dT1 :: real
  dT2 :: real
  LMTD :: pyval
  A :: pyval
  C_hot :: real
  C_cold :: real
  C_min :: real
  C_max :: real
  C_ratio :: real
  Q_max :: real
  effectiveness :: real
  NTU :: pyval
  heat_balance_error :: real

subsection \<open>The statements of the calculation, each as a function of the inputs\<close>

definition Q_hot_of :: "exchanger_input \<Rightarrow> real" where
  "Q_hot_of inp = m_hot inp * Cp_hot inp * (Th_in inp - Th_out inp)"

definition Q_cold_of :: "exchanger_input \<Rightarrow> real" where
  "Q_cold_of inp = m_cold inp * Cp_cold inp * (Tc_out inp - Tc_in inp)"

definition Q_avg_of :: "exchanger_input \<Rightarrow> real" where
  "Q_avg_of inp = (Q_hot_of inp + Q_cold_of inp) / 2"

definition Q_of :: "exchanger_input \<Rightarrow> real" where
  "Q_of inp = Q_avg_of inp * 1000"

definition dT1_of :: "exchanger_input \<Rightarrow> real" where
  "dT1_of inp = (if configuration inp = Counterflow then Th_in inp - Tc_out inp
                 else Th_in inp - Tc_in inp)"

definition dT2_of :: "exchanger_input \<Rightarrow> real" where
  "dT2_of inp = (if configuration inp = Counterflow then Th_out inp - Tc_in inp
                 else Th_out inp - Tc_out inp)"

text \<open>
  Lines 178 to 181. In the \<open>else\<close> branch \<open>dT1 / dT2\<close> divides two Python floats and
  raises when \<open>dT2\<close> is zero; the quotient by the logarithm is NumPy's.
\<close>

definition LMTD_of :: "exchanger_input \<Rightarrow> error + pyval" where
  "LMTD_of inp =
     (if \<bar>dT1_of inp - dT2_of inp\<bar> < 1 / 1000000 then Inr (PyFloat (dT1_of inp))
      else bind_err (float_div (dT1_of inp) (dT2_of inp)) (\<lambda>r.
             py_div (PyFloat (dT1_of inp - dT2_of inp)) (NpFloat (np_log r))))"

definition A_of :: "exchanger_input \<Rightarrow> error + pyval" where
  "A_of inp = bind_err (LMTD_of inp) (\<lambda>l.
     py_div (PyFloat (Q_of inp)) (py_mul (PyFloat (U inp)) l))"

definition C_hot_of :: "exchanger_input \<Rightarrow> real" where
  "C_hot_of inp = m_hot inp * Cp_hot inp * 1000"

definition C_cold_of :: "exchanger_input \<Rightarrow> real" where
  "C_cold_of inp = m_cold inp * Cp_cold inp * 1000"

definition C_min_of :: "exchanger_input \<Rightarrow> real" where
  "C_min_of inp = min (C_hot_of inp) (C_cold_of inp)"

definition C_max_of :: "exchanger_input \<Rightarrow> real" where
  "C_max_of inp = max (C_hot_of inp) (C_cold_of inp)"

definition C_ratio_of :: "exchanger_input \<Rightarrow> error + real" where
  "C_ratio_of inp = float_div (C_min_of inp) (C_max_of inp)"

definition Q_max_of :: "exchanger_input \<Rightarrow> real" where
  "Q_max_of inp = C_min_of inp * (Th_in inp - Tc_in inp)"

definition effectiveness_of :: "exchanger_input \<Rightarrow> error + real" where
  "effectiveness_of inp = float_div (Q_of inp) (Q_max_of inp)"

definition NTU_of :: "exchanger_input \<Rightarrow> error + pyval" where
  "NTU_of inp = bind_err (A_of inp) (\<lambda>a.
     py_div (py_mul (PyFloat (U inp)) a) (PyFloat (C_min_of inp)))"

definition heat_balance_error_of :: "exchanger_input \<Rightarrow> error + real" where
  "heat_balance_error_of inp =
     bind_err (float_div \<bar>Q_hot_of inp - Q_cold_of inp\<bar> (Q_avg_of inp)) (\<lambda>q. Inr (q * 100))"

text \<open>
  The calculation block in the order of the script: the first statement that raises ends
  the run, otherwise every variable has its value.
\<close>

definition evaluate :: "exchanger_input \<Rightarrow> error + exchanger_result" where
  "evaluate inp =
     bind_err (LMTD_of inp) (\<lambda>l.
     bind_err (A_of inp) (\<lambda>a.
     bind_err (C_ratio_of inp) (\<lambda>cr.
     bind_err (effectiveness_of inp) (\<lambda>eff.
     bind_err (NTU_of inp) (\<lambda>ntu.
     bind_err (heat_balance_error_of inp) (\<lambda>hbe.
       Inr \<lparr> Q_hot = Q_hot_of inp, Q_cold = Q_cold_of inp, Q_avg = Q_avg_of inp,
             Q = Q_of inp, dT1 = dT1_of inp, dT2 = dT2_of inp, LMTD = l, A = a,
             C_hot = C_hot_of inp, C_cold = C_cold_of inp, C_min = C_min_of inp,
             C_max = C_max_of inp, C_ratio = cr, Q_max = Q_max_of inp,
             effectiveness = eff, NTU = ntu, heat_balance_error = hbe \<rparr>))))))"

subsection \<open>The statements of lines 165 to 198 in double precision\<close>

text \<open>
  The same statements with every operation rounded, in the order Python evaluates them.
  \<open>np.log\<close> is NumPy's and not part of the script: it is the parameter \<open>lg\<close>.
\<close>

definition Q_hot_double :: "exchanger_input \<Rightarrow> real" where
  "Q_hot_double inp = rnd (rnd (m_hot inp * Cp_hot inp) * rnd (Th_in inp - Th_out inp))"

definition Q_cold_double :: "exchanger_input \<Rightarrow> real" where
  "Q_cold_double inp = rnd (rnd (m_cold inp * Cp_cold inp) * rnd (Tc_out inp - Tc_in inp))"

definition Q_avg_double :: "exchanger_input \<Rightarrow> real" where
  "Q_avg_double inp = rnd (rnd (Q_hot_double inp + Q_cold_double inp) / 2)"

definition Q_double :: "exchanger_input \<Rightarrow> real" where
  "Q_double inp = rnd (Q_avg_double inp * 1000)"

definition dT1_double :: "exchanger_input \<Rightarrow> real" where
  "dT1_double inp = (if configuration inp = Counterflow then rnd (Th_in inp - Tc_out inp)
                     else rnd (Th_in inp - Tc_in inp))"

definition dT2_double :: "exchanger_input \<Rightarrow> real" where
  "dT2_double inp = (if configuration inp = Counterflow then rnd (Th_out inp - Tc_in inp)
                     else rnd (Th_out inp - Tc_out inp))"

definition LMTD_double :: "(real \<Rightarrow> npfloat) \<Rightarrow> exchanger_input \<Rightarrow> error + pyval" where
  "LMTD_double lg inp =
     (if \<bar>rnd (dT1_double inp - dT2_double inp)\<bar> < rnd (1 / 1000000)
      then Inr (PyFloat (dT1_double inp))
      else bind_err (float_div_double (dT1_double inp) (dT2_double inp)) (\<lambda>r.
             py_div_double (PyFloat (rnd (dT1_double inp - dT2_double inp))) (NpFloat (lg r))))"

definition A_double :: "(real \<Rightarrow> npfloat) \<Rightarrow> exchanger_input \<Rightarrow> error + pyval" where
  "A_double lg inp = bind_err (LMTD_double lg inp) (\<lambda>l.
     py_div_double (PyFloat (Q_double inp)) (py_mul_double (PyFloat (U inp)) l))"

definition C_hot_double :: "exchanger_input \<Rightarrow> real" where
  "C_hot_double inp = rnd (rnd (m_hot inp * Cp_hot inp) * 1000)"

definition C_cold_double :: "exchanger_input \<Rightarrow> real" where
  "C_cold_double inp = rnd (rnd (m_cold inp * Cp_cold inp) * 1000)"

definition C_min_double :: "exchanger_input \<Rightarrow> real" where
  "C_min_double inp = min (C_hot_double inp) (C_cold_double inp)"

definition NTU_double :: "(real \<Rightarrow> npfloat) \<Rightarrow> exchanger_input \<Rightarrow> error + pyval" where
  "NTU_double lg inp = bind_err (A_double lg inp) (\<lambda>a.
     py_div_double (py_mul_double (PyFloat (U inp)) a) (PyFloat (C_min_double inp)))"

subsection \<open>Performance classification (\<open>effectiveness_gauge\<close>, lines 15 to 26)\<close>

definition classify :: "real \<Rightarrow> string \<times> string" where
  "classify e =
     (if e \<ge> 80 then (''Excellent'', ''green'')
      else if e \<ge> 60 then (''Good'', ''limegreen'')
      else if e \<ge> 40 then (''Fair'', ''orange'')
      else (''Poor'', ''red''))"

subsection \<open>Temperature profile (lines 237 to 244)\<close>

text \<open>
  \<open>np.linspace(start, stop, num)\<close> with its default \<open>endpoint=True\<close>, in double
  precision: \<open>num\<close> samples \<open>i * step + start\<close> with \<open>step = (stop - start) / (num - 1)\<close>,
  the last one overwritten by \<open>stop\<close> when there is more than one. The script asks for
  50 samples from 0 to 1; it has no parameter for the count.
\<close>

definition linspace :: "real \<Rightarrow> real \<Rightarrow> nat \<Rightarrow> real list" where
  "linspace start stop num =
     (let d = num - 1;
          delta = rnd (stop - start);
          y = (if d > 0
               then map (\<lambda>i. rnd (rnd (real i * rnd (delta / real d)) + start)) [0..<num]
               else map (\<lambda>i. rnd (rnd (real i * delta) + start)) [0..<num])
      in if num > 1 then y[num - 1 := stop] else y)"

text \<open>
  Lines 240 to 244 on the array \<open>x\<close>, element by element: the difference of the two
  temperatures is a Python float, its product with \<open>x\<close> and the final sum or difference
  are NumPy's, each rounded.
\<close>

definition temperature_profile :: "exchanger_input \<Rightarrow> real list \<times> real list \<times> real list" where
  "temperature_profile inp =
     (let x = linspace 0 1 50 in
      if configuration inp = Counterflow then
        (x, map (\<lambda>xi. rnd (Th_in inp - rnd (rnd (Th_in inp - Th_out inp) * xi))) x,
            map (\<lambda>xi. rnd (Tc_out inp - rnd (rnd (Tc_out inp - Tc_in inp) * xi))) x)
      else
        (x, map (\<lambda>xi. rnd (Th_in inp - rnd (rnd (Th_in inp - Th_out inp) * xi))) x,
            map (\<lambda>xi. rnd (Tc_in inp + rnd (rnd (Tc_out inp - Tc_in inp) * xi))) x))"

subsection \<open>Inputs used as examples\<close>

text \<open>The default values of the form, which are also the example of the specification.\<close>

definition spec_example_input :: exchanger_input where
  "spec_example_input =
     \<lparr> Th_in = 150, Th_out = 90, m_hot = 2.5, Cp_hot = 4.18,
       Tc_in = 25, Tc_out = 70, m_cold = 3, Cp_cold = 4.18, U = 500,
       configuration = Counterflow \<rparr>"

text \<open>Equal duties and equal terminal temperature differences (80 and 80).\<close>

definition equal_deltas_input :: exchanger_input where
  "equal_deltas_input =
     \<lparr> Th_in = 150, Th_out = 105, m_hot = 3, Cp_hot = 4.18,
       Tc_in = 25, Tc_out = 70, m_cold = 3, Cp_cold = 4.18, U = 500,
       configuration = Counterflow \<rparr>"

text \<open>Both fluids enter at the same temperature.\<close>

definition equal_inlets_input :: exchanger_input where
  "equal_inlets_input =
     \<lparr> Th_in = 100, Th_out = 90, m_hot = 2.5, Cp_hot = 4.18,
       Tc_in = 100, Tc_out = 110, m_cold = 3, Cp_cold = 4.18, U = 500,
       configuration = Counterflow \<rparr>"

text \<open>Neither fluid changes temperature: both duties are zero.\<close>

definition idle_input :: exchanger_input where
  "idle_input =
     \<lparr> Th_in = 150, Th_out = 150, m_hot = 2.5, Cp_hot = 4.18,
       Tc_in = 25, Tc_out = 25, m_cold = 3, Cp_cold = 4.18, U = 500,
       configuration = Counterflow \<rparr>"


text \<open>Counterflow, the hot fluid leaving at the cold inlet temperature: \<open>dT2 = 0\<close>.\<close>

definition pinch_input :: exchanger_input where
  "pinch_input =
     \<lparr> Th_in = 150, Th_out = 25, m_hot = 2.5, Cp_hot = 4.18,
       Tc_in = 25, Tc_out = 70, m_cold = 3, Cp_cold = 4.18, U = 500,
       configuration = Counterflow \<rparr>"

text \<open>Counterflow, the hot fluid leaving below the cold inlet temperature: \<open>dT2 < 0 < dT1\<close>.\<close>

definition crossing_input :: exchanger_input where
  "crossing_input =
     \<lparr> Th_in = 150, Th_out = 20, m_hot = 2.5, Cp_hot = 4.18,
       Tc_in = 25, Tc_out = 70, m_cold = 3, Cp_cold = 4.18, U = 500,
       configuration = Counterflow \<rparr>"

text \<open>Counterflow, the hot fluid entering at the cold outlet temperature: \<open>dT1 = 0\<close>.\<close>

definition hot_end_pinch_input :: exchanger_input where
  "hot_end_pinch_input =
     \<lparr> Th_in = 70, Th_out = 50, m_hot = 2.5, Cp_hot = 4.18,
       Tc_in = 25, Tc_out = 70, m_cold = 3, Cp_cold = 4.18, U = 500,
       configuration = Counterflow \<rparr>"


text \<open>
  Every field a small dyadic number, so that lines 165 to 189 compute without rounding;
  equal duties and equal temperature differences (80 and 80); \<open>U\<close> is left open.
\<close>

definition dyadic_input :: "real \<Rightarrow> exchanger_input" where
  "dyadic_input u =
     \<lparr> Th_in = 150, Th_out = 105, m_hot = 3, Cp_hot = 4,
       Tc_in = 25, Tc_out = 70, m_cold = 3, Cp_cold = 4, U = u,
       configuration = Counterflow \<rparr>"

text \<open>
  The cold fluid from 10.3 to 44.9 degrees: the two fields are the doubles nearest to these
  decimals, which is what the form returns for them. The configuration is left open.
\<close>

definition profile_input :: "flow_type \<Rightarrow> exchanger_input" where
  "profile_input c =
     \<lparr> Th_in = 150, Th_out = 90, m_hot = 2.5, Cp_hot = 4,
       Tc_in = 2899192260119757 / 281474976710656,
       Tc_out = 6319113227154227 / 140737488355328, m_cold = 3, Cp_cold = 4, U = 500,
       configuration = c \<rparr>"


text \<open>
  Both fluids change temperature by \<open>2\<^sup>-\<^sup>2\<^sup>2\<close> degrees only, so that the degenerate branch
  is taken in both configurations.
\<close>

definition near_equal_input :: "flow_type \<Rightarrow> exchanger_input" where
  "near_equal_input c =
     \<lparr> Th_in = 150, Th_out = 150 - 1 / 4194304, m_hot = 2.5, Cp_hot = 4.18,
       Tc_in = 25, Tc_out = 25 + 1 / 4194304, m_cold = 3, Cp_cold = 4.18, U = 500,
       configuration = c \<rparr>"

section \<open>Properties\<close>

lemmas calc_defs = Q_hot_of_def Q_cold_of_def Q_avg_of_def Q_of_def dT1_of_def dT2_of_def
  C_hot_of_def C_cold_of_def C_min_of_def C_max_of_def Q_max_of_def

lemmas stmt_defs = LMTD_of_def A_of_def C_ratio_of_def effectiveness_of_def NTU_of_def
  heat_balance_error_of_def float_div_def bind_err_def

lemma capacity_rates_pos:
  assumes "0 < m_hot inp" "0 < Cp_hot inp" "0 < m_cold inp" "0 < Cp_cold inp"
  shows "0 < C_hot_of inp" "0 < C_cold_of inp" "0 < C_min_of inp" "0 < C_max_of inp"
  using assms by (simp_all add: C_hot_of_def C_cold_of_def C_min_of_def C_max_of_def
      min_def max_def)

lemma spec_example_pos:
  "0 < m_hot spec_example_input" "0 < Cp_hot spec_example_input"
  "0 < m_cold spec_example_input" "0 < Cp_cold spec_example_input"
  by (simp_all add: spec_example_input_def)

subsection \<open>Heat balance error\<close>

text \<open>
  C4, as the specification states it: for positive mass flow rates and specific heats the
  heat balance error is 0 if and only if \<open>Q_hot = Q_cold\<close>. This fails when both duties
  are zero: then \<open>Q_avg\<close> is zero and line 201 divides by it, so the statement raises
  \<open>ZeroDivisionError\<close> instead of giving 0.
\<close>

theorem balance_zero_without_duty_counterexample:
  "0 < m_hot idle_input \<and> 0 < Cp_hot idle_input \<and>
   0 < m_cold idle_input \<and> 0 < Cp_cold idle_input \<and>
   Q_hot_of idle_input = Q_cold_of idle_input \<and>
   heat_balance_error_of idle_input \<noteq> Inr 0 \<and>
   heat_balance_error_of idle_input = Inl ZeroDivisionError \<and>
   evaluate idle_input = Inl ZeroDivisionError"
  by (simp add: stmt_defs calc_defs idle_input_def evaluate_def)

text \<open>
  C4, amended: whenever \<open>Q_avg\<close> is not zero, the heat balance error is 0 if and only if
  \<open>Q_hot = Q_cold\<close>; when \<open>Q_avg\<close> is zero the statement raises \<open>ZeroDivisionError\<close>.
  This holds for all inputs, positive or not.
\<close>

theorem balance_zero_iff:
  "(Q_avg_of inp \<noteq> 0 \<longrightarrow>
      (heat_balance_error_of inp = Inr 0 \<longleftrightarrow> Q_hot_of inp = Q_cold_of inp)) \<and>
   (Q_avg_of inp = 0 \<longrightarrow> heat_balance_error_of inp = Inl ZeroDivisionError)"
  by (simp add: heat_balance_error_of_def float_div_def bind_err_def)

theorem balance_zero_iff_witness:
  "Q_avg_of equal_deltas_input \<noteq> 0 \<and>
   Q_hot_of equal_deltas_input = Q_cold_of equal_deltas_input \<and>
   heat_balance_error_of equal_deltas_input = Inr 0 \<and>
   Q_avg_of spec_example_input \<noteq> 0 \<and>
   Q_hot_of spec_example_input \<noteq> Q_cold_of spec_example_input \<and>
   heat_balance_error_of spec_example_input \<noteq> Inr 0 \<and>
   Q_avg_of idle_input = 0 \<and> heat_balance_error_of idle_input = Inl ZeroDivisionError"
proof -
  have a: "Q_avg_of equal_deltas_input \<noteq> 0"
    "Q_hot_of equal_deltas_input = Q_cold_of equal_deltas_input"
    by (simp_all add: calc_defs equal_deltas_input_def)
  have b: "Q_avg_of spec_example_input \<noteq> 0"
    "Q_hot_of spec_example_input \<noteq> Q_cold_of spec_example_input"
    by (simp_all add: calc_defs spec_example_input_def)
  have c: "Q_avg_of idle_input = 0"
    by (simp add: calc_defs idle_input_def)
  from balance_zero_iff [of equal_deltas_input] balance_zero_iff [of spec_example_input]
    balance_zero_iff [of idle_input] a b c
  show ?thesis by simp
qed

subsection \<open>Degenerate LMTD\<close>

text \<open>
  C5: whenever \<open>|dT1 - dT2| < 1e-6\<close>, in either configuration, the LMTD statement
  returns \<open>dT1\<close> itself as a Python float, without dividing or taking a logarithm and
  without raising; a run that completes has that value in \<open>LMTD\<close>.
\<close>

theorem LMTD_degenerate:
  "\<bar>dT1_of inp - dT2_of inp\<bar> < 1 / 1000000 \<Longrightarrow>
     LMTD_of inp = Inr (PyFloat (dT1_of inp)) \<and>
     (\<forall>r. evaluate inp = Inr r \<longrightarrow> LMTD r = PyFloat (dT1_of inp))"
  by (auto simp: LMTD_of_def evaluate_def bind_err_def split: sum.splits)

theorem LMTD_degenerate_witness:
  "\<bar>dT1_of equal_deltas_input - dT2_of equal_deltas_input\<bar> < 1 / 1000000 \<and>
   LMTD_of equal_deltas_input = Inr (PyFloat 80) \<and>
   (\<exists>r. evaluate equal_deltas_input = Inr r \<and> LMTD r = PyFloat 80)"
proof -
  have h: "\<bar>dT1_of equal_deltas_input - dT2_of equal_deltas_input\<bar> < 1 / 1000000"
    by (simp add: dT1_of_def dT2_of_def equal_deltas_input_def)
  have d: "dT1_of equal_deltas_input = 80"
    by (simp add: dT1_of_def equal_deltas_input_def)
  have e: "\<exists>r. evaluate equal_deltas_input = Inr r"
    by (simp add: evaluate_def stmt_defs calc_defs equal_deltas_input_def)
  from LMTD_degenerate [OF h] d e h show ?thesis by auto
qed

subsection \<open>Capacity ratio\<close>

text \<open>
  C7: for positive mass flow rates and specific heats the division of line 191 does not
  raise, \<open>C_ratio\<close> lies in the interval (0, 1], and it is 1 if and only if
  \<open>C_hot = C_cold\<close>.
\<close>

theorem C_ratio_unit_interval:
  assumes "0 < m_hot inp" "0 < Cp_hot inp" "0 < m_cold inp" "0 < Cp_cold inp"
  shows "\<exists>c. C_ratio_of inp = Inr c \<and> 0 < c \<and> c \<le> 1 \<and>
             (c = 1 \<longleftrightarrow> C_hot_of inp = C_cold_of inp)"
proof -
  from capacity_rates_pos [OF assms]
  have h: "0 < C_hot_of inp" and c: "0 < C_cold_of inp" by simp_all
  then show ?thesis
    by (auto simp: C_ratio_of_def float_div_def C_min_of_def C_max_of_def min_def max_def)
qed

theorem C_ratio_unit_interval_witness:
  "0 < m_hot spec_example_input \<and> 0 < Cp_hot spec_example_input \<and>
   0 < m_cold spec_example_input \<and> 0 < Cp_cold spec_example_input \<and>
   C_ratio_of spec_example_input = Inr (5 / 6) \<and>
   C_hot_of spec_example_input \<noteq> C_cold_of spec_example_input"
proof -
  have v: "C_ratio_of spec_example_input = Inr (5 / 6)"
    by (simp add: C_ratio_of_def float_div_def calc_defs spec_example_input_def)
  have n: "C_hot_of spec_example_input \<noteq> C_cold_of spec_example_input"
    by (simp add: calc_defs spec_example_input_def)
  from C_ratio_unit_interval [OF spec_example_pos] v n spec_example_pos
  show ?thesis by simp
qed

subsection \<open>Effectiveness\<close>

text \<open>
  C6: the effectiveness statement (lines 194 and 195) raises exactly when \<open>Q_max\<close> is
  zero; for positive mass flow rates and specific heats that is exactly when
  \<open>Th_in = Tc_in\<close>, and for every other input it returns \<open>Q / Q_max\<close>.
\<close>

theorem effectiveness_fails_iff:
  assumes "0 < m_hot inp" "0 < Cp_hot inp" "0 < m_cold inp" "0 < Cp_cold inp"
  shows "(effectiveness_of inp = Inl ZeroDivisionError \<longleftrightarrow> Q_max_of inp = 0) \<and>
         (Q_max_of inp = 0 \<longleftrightarrow> Th_in inp = Tc_in inp) \<and>
         (Th_in inp \<noteq> Tc_in inp \<longrightarrow> effectiveness_of inp = Inr (Q_of inp / Q_max_of inp))"
proof -
  from capacity_rates_pos(3) [OF assms] have "C_min_of inp \<noteq> 0" by simp
  then have q: "Q_max_of inp = 0 \<longleftrightarrow> Th_in inp = Tc_in inp"
    by (simp add: Q_max_of_def)
  then show ?thesis
    by (simp add: effectiveness_of_def float_div_def)
qed

theorem effectiveness_fails_iff_witness:
  "0 < m_hot spec_example_input \<and> 0 < Cp_hot spec_example_input \<and>
   0 < m_cold spec_example_input \<and> 0 < Cp_cold spec_example_input \<and>
   Th_in spec_example_input \<noteq> Tc_in spec_example_input \<and>
   effectiveness_of spec_example_input = Inr (57 / 125) \<and>
   0 < m_hot equal_inlets_input \<and> 0 < Cp_hot equal_inlets_input \<and>
   0 < m_cold equal_inlets_input \<and> 0 < Cp_cold equal_inlets_input \<and>
   Th_in equal_inlets_input = Tc_in equal_inlets_input \<and>
   effectiveness_of equal_inlets_input = Inl ZeroDivisionError"
proof -
  have p': "0 < m_hot equal_inlets_input" "0 < Cp_hot equal_inlets_input"
    "0 < m_cold equal_inlets_input" "0 < Cp_cold equal_inlets_input"
    by (simp_all add: equal_inlets_input_def)
  have n: "Th_in spec_example_input \<noteq> Tc_in spec_example_input"
    by (simp add: spec_example_input_def)
  have e: "Th_in equal_inlets_input = Tc_in equal_inlets_input"
    by (simp add: equal_inlets_input_def)
  have v: "Q_of spec_example_input / Q_max_of spec_example_input = 57 / 125"
    by (simp add: calc_defs spec_example_input_def)
  from effectiveness_fails_iff [OF spec_example_pos] effectiveness_fails_iff [OF p']
    n e v spec_example_pos p'
  show ?thesis by simp
qed

subsection \<open>Performance classification\<close>

text \<open>
  C9: the classification is a threshold lookup from the top: 80 and above is
  \<open>Excellent\<close>, from 60 up to 80 is \<open>Good\<close>, from 40 up to 60 is \<open>Fair\<close>, anything
  else is \<open>Poor\<close>; so 85 is \<open>Excellent\<close>, 60 is \<open>Good\<close> and 39.9 is \<open>Poor\<close>.
\<close>

theorem classify_thresholds:
  "(80 \<le> e \<longrightarrow> fst (classify e) = ''Excellent'') \<and>
   (60 \<le> e \<and> e < 80 \<longrightarrow> fst (classify e) = ''Good'') \<and>
   (40 \<le> e \<and> e < 60 \<longrightarrow> fst (classify e) = ''Fair'') \<and>
   (e < 40 \<longrightarrow> fst (classify e) = ''Poor'') \<and>
   fst (classify 85) = ''Excellent'' \<and> fst (classify 60) = ''Good'' \<and>
   fst (classify 39.9) = ''Poor''"
  by (simp add: classify_def)

theorem classify_thresholds_witness:
  "(80::real) \<le> 80 \<and> fst (classify 80) = ''Excellent'' \<and>
   (60::real) \<le> 70 \<and> (70::real) < 80 \<and> fst (classify 70) = ''Good'' \<and>
   (40::real) \<le> 40 \<and> (40::real) < 60 \<and> fst (classify 40) = ''Fair'' \<and>
   (10::real) < 40 \<and> fst (classify 10) = ''Poor''"
  using classify_thresholds [of 80] classify_thresholds [of 70]
    classify_thresholds [of 40] classify_thresholds [of 10]
  by simp

subsection \<open>Switching the configuration\<close>

















text \<open>
  Why the comparison leaves the degenerate branch out: with temperatures in the same order
  but both fluids changing by \<open>2\<^sup>-\<^sup>2\<^sup>2\<close> degrees, both configurations take the branch of
  line 179, and \<open>LMTD\<close> is then the smaller one in counterflow.
\<close>

lemma degenerate_branch_reverses:
  "Tc_in (near_equal_input c) < Tc_out (near_equal_input c) \<and>
   Tc_out (near_equal_input c) < Th_out (near_equal_input c) \<and>
   Th_out (near_equal_input c) < Th_in (near_equal_input c) \<and>
   LMTD_of (near_equal_input Counterflow) = Inr (PyFloat (125 - 1 / 4194304)) \<and>
   LMTD_of (near_equal_input ParallelFlow) = Inr (PyFloat 125)"
  by (simp add: LMTD_of_def dT1_of_def dT2_of_def near_equal_input_def)

subsection \<open>Temperature differences that are zero or of opposite sign\<close>

text \<open>
  C3, as the specification states it: when \<open>dT1\<close> and \<open>dT2\<close> have opposite signs or
  either is zero (outside the degenerate branch), the run does not raise but carries a
  non-finite value through \<open>LMTD\<close>, area, effectiveness and NTU. This fails when
  \<open>dT2\<close> is zero: \<open>dT1 / dT2\<close> on line 181 divides two Python floats and raises
  \<open>ZeroDivisionError\<close> before NumPy is reached.
\<close>

theorem invalid_profile_raises_counterexample:
  "dT2_of pinch_input = 0 \<and>
   \<not> \<bar>dT1_of pinch_input - dT2_of pinch_input\<bar> < 1 / 1000000 \<and>
   LMTD_of pinch_input = Inl ZeroDivisionError \<and>
   evaluate pinch_input = Inl ZeroDivisionError"
  by (simp add: evaluate_def stmt_defs calc_defs pinch_input_def)

text \<open>
  C3, amended, outside the degenerate branch:
  \<^item> when \<open>dT2\<close> is zero the LMTD statement raises \<open>ZeroDivisionError\<close> and the run
    ends there;
  \<^item> when \<open>dT1\<close> and \<open>dT2\<close> are nonzero with opposite signs, \<open>LMTD\<close>, area and NTU
    are NaN and none of the three statements raises;
  \<^item> when \<open>dT1\<close> is zero and \<open>dT2\<close> is not, \<open>LMTD\<close> is the finite value 0 and area
    and NTU are non-finite, again without raising;
  \<^item> the effectiveness does not go through \<open>LMTD\<close>: it is the finite \<open>Q / Q_max\<close>
    whenever \<open>Q_max\<close> is not zero.
\<close>

theorem invalid_profile:
  assumes "\<not> \<bar>dT1_of inp - dT2_of inp\<bar> < 1 / 1000000"
  shows "(dT2_of inp = 0 \<longrightarrow>
           LMTD_of inp = Inl ZeroDivisionError \<and> evaluate inp = Inl ZeroDivisionError) \<and>
         (dT1_of inp * dT2_of inp < 0 \<longrightarrow>
           LMTD_of inp = Inr (NpFloat NaN) \<and> A_of inp = Inr (NpFloat NaN) \<and>
           NTU_of inp = Inr (NpFloat NaN) \<and>
           (\<forall>r. evaluate inp = Inr r \<longrightarrow>
              LMTD r = NpFloat NaN \<and> A r = NpFloat NaN \<and> NTU r = NpFloat NaN)) \<and>
         (dT1_of inp = 0 \<and> dT2_of inp \<noteq> 0 \<longrightarrow>
           LMTD_of inp = Inr (NpFloat (Fin 0)) \<and>
           (\<exists>a n. A_of inp = Inr a \<and> \<not> finite_val a \<and>
                  NTU_of inp = Inr n \<and> \<not> finite_val n)) \<and>
         (Q_max_of inp \<noteq> 0 \<longrightarrow> effectiveness_of inp = Inr (Q_of inp / Q_max_of inp))"
proof -
  have z: "LMTD_of inp = Inl ZeroDivisionError \<and> evaluate inp = Inl ZeroDivisionError"
    if "dT2_of inp = 0"
    using that assms by (simp add: LMTD_of_def evaluate_def float_div_def bind_err_def)
  have n: "LMTD_of inp = Inr (NpFloat NaN) \<and> A_of inp = Inr (NpFloat NaN) \<and>
           NTU_of inp = Inr (NpFloat NaN) \<and>
           (\<forall>r. evaluate inp = Inr r \<longrightarrow>
              LMTD r = NpFloat NaN \<and> A r = NpFloat NaN \<and> NTU r = NpFloat NaN)"
    if "dT1_of inp * dT2_of inp < 0"
  proof -
    from that have "dT2_of inp \<noteq> 0" and "dT1_of inp \<noteq> 0"
      and "dT1_of inp / dT2_of inp < 0"
      by (auto simp: mult_less_0_iff divide_less_0_iff)
    then have "LMTD_of inp = Inr (NpFloat NaN)"
      using assms by (simp add: LMTD_of_def float_div_def bind_err_def np_log_def)
    then have "A_of inp = Inr (NpFloat NaN)" "NTU_of inp = Inr (NpFloat NaN)"
      by (simp_all add: A_of_def NTU_of_def bind_err_def)
    with \<open>LMTD_of inp = Inr (NpFloat NaN)\<close> show ?thesis
      by (auto simp: evaluate_def bind_err_def split: sum.splits)
  qed
  have o: "LMTD_of inp = Inr (NpFloat (Fin 0)) \<and>
           (\<exists>a n. A_of inp = Inr a \<and> \<not> finite_val a \<and>
                  NTU_of inp = Inr n \<and> \<not> finite_val n)"
    if "dT1_of inp = 0 \<and> dT2_of inp \<noteq> 0"
  proof -
    from that have "LMTD_of inp = Inr (NpFloat (Fin 0))"
      using assms by (simp add: LMTD_of_def float_div_def bind_err_def np_log_def)
    then show ?thesis
      by (simp add: A_of_def NTU_of_def bind_err_def)
  qed
  have e: "effectiveness_of inp = Inr (Q_of inp / Q_max_of inp)" if "Q_max_of inp \<noteq> 0"
    using that by (simp add: effectiveness_of_def float_div_def)
  from z n o e show ?thesis by blast
qed

theorem invalid_profile_witness:
  "\<not> \<bar>dT1_of pinch_input - dT2_of pinch_input\<bar> < 1 / 1000000 \<and>
   dT2_of pinch_input = 0 \<and> evaluate pinch_input = Inl ZeroDivisionError \<and>
   \<not> \<bar>dT1_of crossing_input - dT2_of crossing_input\<bar> < 1 / 1000000 \<and>
   dT1_of crossing_input * dT2_of crossing_input < 0 \<and>
   LMTD_of crossing_input = Inr (NpFloat NaN) \<and> A_of crossing_input = Inr (NpFloat NaN) \<and>
   NTU_of crossing_input = Inr (NpFloat NaN) \<and>
   (\<exists>r. evaluate crossing_input = Inr r \<and> LMTD r = NpFloat NaN \<and>
        A r = NpFloat NaN \<and> NTU r = NpFloat NaN \<and> effectiveness r = 92 / 125) \<and>
   Q_max_of crossing_input \<noteq> 0 \<and> effectiveness_of crossing_input = Inr (92 / 125) \<and>
   \<not> \<bar>dT1_of hot_end_pinch_input - dT2_of hot_end_pinch_input\<bar> < 1 / 1000000 \<and>
   dT1_of hot_end_pinch_input = 0 \<and> dT2_of hot_end_pinch_input \<noteq> 0 \<and>
   LMTD_of hot_end_pinch_input = Inr (NpFloat (Fin 0)) \<and>
   (\<exists>a n. A_of hot_end_pinch_input = Inr a \<and> \<not> finite_val a \<and>
          NTU_of hot_end_pinch_input = Inr n \<and> \<not> finite_val n)"
proof -
  have p: "\<not> \<bar>dT1_of pinch_input - dT2_of pinch_input\<bar> < 1 / 1000000"
    "dT2_of pinch_input = 0"
    by (simp_all add: dT1_of_def dT2_of_def pinch_input_def)
  have c: "\<not> \<bar>dT1_of crossing_input - dT2_of crossing_input\<bar> < 1 / 1000000"
    "dT1_of crossing_input * dT2_of crossing_input < 0"
    "Q_max_of crossing_input \<noteq> 0"
    "Q_of crossing_input / Q_max_of crossing_input = 92 / 125"
    by (simp_all add: calc_defs crossing_input_def)
  have h: "\<not> \<bar>dT1_of hot_end_pinch_input - dT2_of hot_end_pinch_input\<bar> < 1 / 1000000"
    "dT1_of hot_end_pinch_input = 0" "dT2_of hot_end_pinch_input \<noteq> 0"
    by (simp_all add: dT1_of_def dT2_of_def hot_end_pinch_input_def)
  have l: "LMTD_of crossing_input = Inr (NpFloat NaN)"
    by (simp add: LMTD_of_def float_div_def bind_err_def np_log_def dT1_of_def dT2_of_def
        crossing_input_def)
  have a: "A_of crossing_input = Inr (NpFloat NaN)" "NTU_of crossing_input = Inr (NpFloat NaN)"
    by (simp_all add: A_of_def NTU_of_def l bind_err_def)
  have s: "C_ratio_of crossing_input = Inr (5 / 6)"
    "effectiveness_of crossing_input = Inr (92 / 125)"
    "heat_balance_error_of crossing_input = Inr (1900 / 23)"
    by (simp_all add: C_ratio_of_def effectiveness_of_def heat_balance_error_of_def
        float_div_def bind_err_def calc_defs crossing_input_def)
  have e: "\<exists>r. evaluate crossing_input = Inr r \<and> effectiveness r = 92 / 125"
    by (simp add: evaluate_def l a s bind_err_def)
  from invalid_profile [OF p(1)] invalid_profile [OF c(1)] invalid_profile [OF h(1)] p c h e
  show ?thesis by auto
qed

subsection \<open>Rounding to the nearest double\<close>

text \<open>
  Rounding at a given exponent, its values at concrete numbers, the relative error of one
  rounding (at most \<open>2\<^sup>-\<^sup>5\<^sup>3\<close>), and that a rounded number is a double.
\<close>

lemma rnd_0: "rnd 0 = 0"
  by (simp add: rnd_def)

lemma round_even_of_int: "round_even (of_int n) = n"
  by (simp add: round_even_def)

lemma round_even_error: "\<bar>of_int (round_even y) - y\<bar> \<le> 1 / 2"
proof -
  have "of_int \<lfloor>y\<rfloor> \<le> y" "y < of_int \<lfloor>y\<rfloor> + 1" by linarith+
  then show ?thesis
    by (auto simp: round_even_def Let_def)
qed

lemma round_even_mono_int: "of_int n \<le> y \<Longrightarrow> n \<le> round_even y"
  by (auto simp: round_even_def Let_def le_floor_iff) linarith+

lemma round_even_le_int: "y \<le> of_int n \<Longrightarrow> round_even y \<le> n"
proof -
  assume a: "y \<le> of_int n"
  have f: "of_int \<lfloor>y\<rfloor> \<le> y" by linarith
  show ?thesis
  proof (cases "y = of_int n")
    case True
    then show ?thesis by (simp add: round_even_of_int)
  next
    case False
    with a have "y < of_int n" by simp
    then have "\<lfloor>y\<rfloor> < n" using f by linarith
    then show ?thesis
      by (auto simp: round_even_def Let_def)
  qed
qed

lemma rnd_at:
  assumes "2 powr of_int k \<le> \<bar>x\<bar>" "\<bar>x\<bar> < 2 powr (of_int k + 1)"
  shows "rnd x = of_int (round_even (x / 2 powr of_int (k - 52))) * 2 powr of_int (k - 52)"
proof -
  have "0 < (2::real) powr of_int k" by simp
  with assms(1) have p: "0 < \<bar>x\<bar>" by linarith
  then have "\<lfloor>log 2 \<bar>x\<bar>\<rfloor> = k"
    using assms by (simp add: floor_log_eq_powr_iff)
  with p show ?thesis
    by (simp add: rnd_def Let_def)
qed

lemma round_even_near: "\<bar>y - of_int n\<bar> < 1 / 2 \<Longrightarrow> round_even y = n"
proof -
  assume a: "\<bar>y - of_int n\<bar> < 1 / 2"
  show ?thesis
  proof (cases "of_int n \<le> y")
    case True
    with a have "\<lfloor>y\<rfloor> = n" by (intro floor_unique) linarith+
    with a True show ?thesis by (simp add: round_even_def Let_def)
  next
    case False
    with a have "\<lfloor>y\<rfloor> = n - 1" by (intro floor_unique) (simp, linarith)+
    with a False show ?thesis by (simp add: round_even_def Let_def)
  qed
qed

lemma rnd_near_neg:
  assumes "2 ^ 52 \<le> \<bar>x\<bar> * 2 ^ n" "\<bar>x\<bar> * 2 ^ n < 2 ^ 53" "\<bar>x * 2 ^ n - of_int m\<bar> < 1 / 2"
  shows "rnd x = of_int m / 2 ^ n"
proof -
  have e: "2 powr of_int (52 - int n - 52) = 1 / (2 ^ n :: real)"
    by (simp add: powr_minus powr_realpow inverse_eq_divide)
  have a: "2 powr of_int (52 - int n) = 2 ^ 52 / (2 ^ n :: real)"
    by (simp add: powr_diff powr_realpow)
  have b: "2 powr (of_int (52 - int n) + 1) = 2 ^ 53 / (2 ^ n :: real)"
    by (simp add: powr_diff powr_add powr_realpow)
  have "2 powr of_int (52 - int n) \<le> \<bar>x\<bar>" "\<bar>x\<bar> < 2 powr (of_int (52 - int n) + 1)"
    unfolding a b using assms(1,2) by (simp_all add: field_simps)
  from rnd_at [OF this] have "rnd x = of_int (round_even (x * 2 ^ n)) / 2 ^ n"
    unfolding e by simp
  with round_even_near [OF assms(3)] show ?thesis by simp
qed

lemma rnd_near_pos:
  assumes "2 ^ 52 \<le> \<bar>x\<bar> / 2 ^ n" "\<bar>x\<bar> / 2 ^ n < 2 ^ 53" "\<bar>x / 2 ^ n - of_int m\<bar> < 1 / 2"
  shows "rnd x = of_int m * 2 ^ n"
proof -
  have e: "2 powr of_int (52 + int n - 52) = (2 ^ n :: real)"
    by (simp add: powr_realpow)
  have a: "2 powr of_int (52 + int n) = 2 ^ 52 * (2 ^ n :: real)"
    by (simp add: powr_add powr_realpow)
  have b: "2 powr (of_int (52 + int n) + 1) = 2 ^ 53 * (2 ^ n :: real)"
    by (simp add: powr_add powr_realpow)
  have "2 powr of_int (52 + int n) \<le> \<bar>x\<bar>" "\<bar>x\<bar> < 2 powr (of_int (52 + int n) + 1)"
    unfolding a b using assms(1,2) by (simp_all add: field_simps)
  from rnd_at [OF this] have "rnd x = of_int (round_even (x / 2 ^ n)) * 2 ^ n"
    unfolding e by simp
  with round_even_near [OF assms(3)] show ?thesis by simp
qed

lemma round_even_tie:
  "y = of_int f + 1 / 2 \<Longrightarrow> round_even y = (if even f then f else f + 1)"
proof -
  assume a: "y = of_int f + 1 / 2"
  then have "\<lfloor>y\<rfloor> = f" by (intro floor_unique) simp_all
  with a show ?thesis by (simp add: round_even_def Let_def)
qed

lemma rnd_tie_neg:
  assumes "2 ^ 52 \<le> \<bar>x\<bar> * 2 ^ n" "\<bar>x\<bar> * 2 ^ n < 2 ^ 53" "x * 2 ^ n = of_int f + 1 / 2"
  shows "rnd x = of_int (if even f then f else f + 1) / 2 ^ n"
proof -
  have e: "2 powr of_int (52 - int n - 52) = 1 / (2 ^ n :: real)"
    by (simp add: powr_minus powr_realpow inverse_eq_divide)
  have a: "2 powr of_int (52 - int n) = 2 ^ 52 / (2 ^ n :: real)"
    by (simp add: powr_diff powr_realpow)
  have b: "2 powr (of_int (52 - int n) + 1) = 2 ^ 53 / (2 ^ n :: real)"
    by (simp add: powr_diff powr_add powr_realpow)
  have "2 powr of_int (52 - int n) \<le> \<bar>x\<bar>" "\<bar>x\<bar> < 2 powr (of_int (52 - int n) + 1)"
    unfolding a b using assms(1,2) by (simp_all add: field_simps)
  from rnd_at [OF this] have "rnd x = of_int (round_even (x * 2 ^ n)) / 2 ^ n"
    unfolding e by simp
  with round_even_tie [OF assms(3)] show ?thesis by simp
qed

lemma rnd_bracket:
  assumes "x \<noteq> 0"
  shows "2 powr of_int \<lfloor>log 2 \<bar>x\<bar>\<rfloor> \<le> \<bar>x\<bar>"
    and "\<bar>x\<bar> < 2 powr (of_int \<lfloor>log 2 \<bar>x\<bar>\<rfloor> + 1)"
proof -
  from assms have "0 < \<bar>x\<bar>" by simp
  from floor_log_eq_powr_iff [OF this, of 2 "\<lfloor>log 2 \<bar>x\<bar>\<rfloor>"]
  show "2 powr of_int \<lfloor>log 2 \<bar>x\<bar>\<rfloor> \<le> \<bar>x\<bar>"
    and "\<bar>x\<bar> < 2 powr (of_int \<lfloor>log 2 \<bar>x\<bar>\<rfloor> + 1)"
    by simp_all
qed

lemma rnd_error: "\<bar>rnd x - x\<bar> \<le> \<bar>x\<bar> / 2 ^ 53"
proof (cases "x = 0")
  case True
  then show ?thesis by (simp add: rnd_0)
next
  case False
  define k where "k = \<lfloor>log 2 \<bar>x\<bar>\<rfloor>"
  define s :: real where "s = 2 powr of_int (k - 52)"
  have sp: "0 < s" by (simp add: s_def)
  have r: "rnd x = of_int (round_even (x / s)) * s"
    using False by (simp add: rnd_def Let_def k_def s_def)
  have "rnd x - x = (of_int (round_even (x / s)) - x / s) * s"
    using sp by (simp add: r field_simps)
  then have "\<bar>rnd x - x\<bar> = \<bar>of_int (round_even (x / s)) - x / s\<bar> * s"
    using sp by (simp add: abs_mult)
  also have "\<dots> \<le> 1 / 2 * s"
    using sp round_even_error [of "x / s"] by (intro mult_right_mono) simp_all
  also have "1 / 2 * s = 2 powr of_int k / 2 ^ 53"
    by (simp add: s_def powr_diff)
  also have "\<dots> \<le> \<bar>x\<bar> / 2 ^ 53"
    using rnd_bracket(1) [OF False] by (simp add: k_def divide_right_mono)
  finally show ?thesis .
qed

lemma rnd_eq_0_iff: "rnd x = 0 \<longleftrightarrow> x = 0"
proof
  assume z: "rnd x = 0"
  show "x = 0"
  proof (rule ccontr)
    assume n: "x \<noteq> 0"
    from rnd_error [of x] z have "\<bar>x\<bar> \<le> \<bar>x\<bar> / 2 ^ 53" by simp
    with n show False by (simp add: field_simps)
  qed
qed (simp add: rnd_0)

lemma rnd_rnd: "rnd (rnd x) = rnd x"
proof (cases "x = 0")
  case True
  then show ?thesis by (simp add: rnd_0)
next
  case False
  define k where "k = \<lfloor>log 2 \<bar>x\<bar>\<rfloor>"
  define s :: real where "s = 2 powr of_int (k - 52)"
  define n where "n = round_even (x / s)"
  have sp: "0 < s" by (simp add: s_def)
  have r: "rnd x = of_int n * s"
    using False by (simp add: rnd_def Let_def k_def s_def n_def)
  have lo: "2 ^ 52 * s = 2 powr of_int k" and hi: "2 ^ 53 * s = 2 powr (of_int k + 1)"
    by (simp_all add: s_def powr_diff powr_add)
  have b: "2 ^ 52 * s \<le> \<bar>x\<bar>" "\<bar>x\<bar> < 2 ^ 53 * s"
    unfolding lo hi k_def by (rule rnd_bracket [OF False])+
  then have y: "2 ^ 52 \<le> \<bar>x / s\<bar>" "\<bar>x / s\<bar> \<le> 2 ^ 53"
    using sp by (simp_all add: field_simps)
  have nb: "2 ^ 52 \<le> \<bar>n\<bar> \<and> \<bar>n\<bar> \<le> 2 ^ 53"
  proof (cases "0 \<le> x / s")
    case True
    with y have "of_int (2 ^ 52) \<le> x / s" "x / s \<le> of_int (2 ^ 53)" by simp_all
    then have "2 ^ 52 \<le> n" "n \<le> 2 ^ 53"
      unfolding n_def by (simp_all only: round_even_mono_int round_even_le_int)
    then show ?thesis by simp
  next
    case False
    with y have "x / s \<le> of_int (- (2 ^ 52))" "of_int (- (2 ^ 53)) \<le> x / s" by simp_all
    then have "n \<le> - (2 ^ 52)" "- (2 ^ 53) \<le> n"
      unfolding n_def by (simp_all only: round_even_mono_int round_even_le_int)
    then show ?thesis by simp
  qed
  show ?thesis
  proof (cases "\<bar>n\<bar> = 2 ^ 53")
    case False
    with nb have "\<bar>n\<bar> < 2 ^ 53" by simp
    then have "\<bar>real_of_int n\<bar> < 2 ^ 53"
      by (metis of_int_abs of_int_less_numeral_power_cancel_iff)
    moreover from nb have "2 ^ 52 \<le> \<bar>real_of_int n\<bar>"
      by (metis of_int_abs numeral_power_le_of_int_cancel_iff)
    ultimately have "2 powr of_int k \<le> \<bar>of_int n * s\<bar>" "\<bar>of_int n * s\<bar> < 2 powr (of_int k + 1)"
      using sp by (simp_all add: lo [symmetric] hi [symmetric] abs_mult)
    from rnd_at [OF this] have "rnd (of_int n * s) = of_int (round_even (of_int n * s / s)) * s"
      by (simp only: s_def)
    then show ?thesis
      using sp by (simp add: r round_even_of_int)
  next
    case True
    then have a: "\<bar>real_of_int n\<bar> = 2 ^ 53"
      by (metis of_int_abs of_int_numeral of_int_power)
    have s2: "2 powr of_int (k + 1 - 52) = 2 * s"
      by (simp add: s_def powr_diff powr_add)
    have "2 powr of_int (k + 1) \<le> \<bar>of_int n * s\<bar>"
      "\<bar>of_int n * s\<bar> < 2 powr (of_int (k + 1) + 1)"
      using sp by (simp_all add: abs_mult a powr_add lo [symmetric])
    from rnd_at [OF this]
    have "rnd (of_int n * s) = of_int (round_even (of_int n * s / (2 * s))) * (2 * s)"
      by (simp only: s2)
    moreover have "even \<bar>n\<bar>" by (simp add: True)
    then have "even n" by simp
    then obtain h where h: "n = 2 * h" by (elim evenE)
    ultimately show ?thesis
      using sp by (simp add: r round_even_of_int)
  qed
qed

lemma rnd_rel: "\<exists>d. \<bar>d\<bar> \<le> 1 / 2 ^ 53 \<and> rnd z = z * (1 + d)"
proof (cases "z = 0")
  case True
  then show ?thesis by (intro exI [of _ 0]) (simp add: rnd_0)
next
  case False
  let ?d = "(rnd z - z) / z"
  have "\<bar>?d\<bar> = \<bar>rnd z - z\<bar> / \<bar>z\<bar>" by simp
  also have "\<dots> \<le> (\<bar>z\<bar> / 2 ^ 53) / \<bar>z\<bar>"
    by (intro divide_right_mono rnd_error) simp
  also have "\<dots> = 1 / 2 ^ 53" using False by simp
  finally have "\<bar>?d\<bar> \<le> 1 / 2 ^ 53" .
  moreover have "rnd z = z * (1 + ?d)" using False by (simp add: field_simps)
  ultimately show ?thesis by blast
qed

lemma mul_err:
  fixes s c :: real
  assumes "\<bar>s - 1\<bar> \<le> a" "\<bar>c\<bar> \<le> b"
  shows "\<bar>s * (1 + c) - 1\<bar> \<le> a + b + a * b"
proof -
  have e: "s * (1 + c) - 1 = (s - 1) + c + (s - 1) * c" by (simp add: algebra_simps)
  have "\<bar>s * (1 + c) - 1\<bar> = \<bar>(s - 1) + c + (s - 1) * c\<bar>"
    by (simp only: e)
  also have "\<dots> \<le> \<bar>(s - 1) + c\<bar> + \<bar>(s - 1) * c\<bar>"
    by (rule abs_triangle_ineq)
  also have "\<dots> \<le> \<bar>s - 1\<bar> + \<bar>c\<bar> + \<bar>s - 1\<bar> * \<bar>c\<bar>"
    using abs_triangle_ineq [of "s - 1" c] by (simp only: abs_mult)
  also have "\<dots> \<le> a + b + a * b"
    using assms by (intro add_mono mult_mono) simp_all
  finally show ?thesis .
qed

lemma div_err:
  fixes s d :: real
  assumes "\<bar>s - 1\<bar> \<le> a" "\<bar>d\<bar> \<le> b" "b < 1"
  shows "\<bar>s / (1 + d) - 1\<bar> \<le> (a + b) / (1 - b)"
proof -
  from assms have p: "0 < 1 - b" "1 - b \<le> 1 + d" "0 < 1 + d" by linarith+
  have "s / (1 + d) - 1 = (s - 1 - d) / (1 + d)"
    using p by (simp add: field_simps)
  then have "\<bar>s / (1 + d) - 1\<bar> = \<bar>s - 1 - d\<bar> / (1 + d)"
    using p by simp
  also have "\<dots> \<le> (a + b) / (1 - b)"
    using assms p by (intro frac_le) linarith+
  finally show ?thesis .
qed

lemma ntu_val_close:
  fixes q u x c :: real
  assumes "u \<noteq> 0" "x \<noteq> 0" "c \<noteq> 0"
  shows "\<bar>rnd (rnd (u * rnd (q / rnd (u * x))) / c) - q / (x * c)\<bar> \<le> \<bar>q / (x * c)\<bar> / 2 ^ 50"
proof -
  define p where "p = rnd (u * x)"
  define a where "a = rnd (q / p)"
  define m where "m = rnd (u * a)"
  define n where "n = rnd (m / c)"
  obtain d1 where d1: "\<bar>d1\<bar> \<le> 1 / 2 ^ 53" "p = u * x * (1 + d1)"
    unfolding p_def using rnd_rel by blast
  obtain d2 where d2: "\<bar>d2\<bar> \<le> 1 / 2 ^ 53" "a = q / p * (1 + d2)"
    unfolding a_def using rnd_rel by blast
  obtain d3 where d3: "\<bar>d3\<bar> \<le> 1 / 2 ^ 53" "m = u * a * (1 + d3)"
    unfolding m_def using rnd_rel by blast
  obtain d4 where d4: "\<bar>d4\<bar> \<le> 1 / 2 ^ 53" "n = m / c * (1 + d4)"
    unfolding n_def using rnd_rel by blast
  define r where "r = (1 + d2) * (1 + d3) * (1 + d4) / (1 + d1)"
  from d1(1) have p1: "1 + d1 \<noteq> 0" by (simp add: abs_le_iff)
  have "n = u * (q / (u * x * (1 + d1)) * (1 + d2)) * (1 + d3) / c * (1 + d4)"
    by (simp only: d4(2) d3(2) d2(2) d1(2))
  also have "\<dots> = q / (x * c) * r"
    unfolding r_def using assms p1 by (simp add: mult_ac)
  finally have v: "n = q / (x * c) * r" .
  have "\<bar>(1 + d2) - 1\<bar> \<le> 1 / 2 ^ 53" using d2(1) by simp
  from mul_err [OF this d3(1)]
  have "\<bar>(1 + d2) * (1 + d3) - 1\<bar> \<le> 1 / 2 ^ 53 + 1 / 2 ^ 53 + 1 / 2 ^ 53 * (1 / 2 ^ 53)" .
  from mul_err [OF this d4(1)]
  have "\<bar>(1 + d2) * (1 + d3) * (1 + d4) - 1\<bar> \<le>
      1 / 2 ^ 53 + 1 / 2 ^ 53 + 1 / 2 ^ 53 * (1 / 2 ^ 53) + 1 / 2 ^ 53 +
      (1 / 2 ^ 53 + 1 / 2 ^ 53 + 1 / 2 ^ 53 * (1 / 2 ^ 53)) * (1 / 2 ^ 53)" .
  from div_err [OF this d1(1)]
  have "\<bar>r - 1\<bar> \<le>
      (1 / 2 ^ 53 + 1 / 2 ^ 53 + 1 / 2 ^ 53 * (1 / 2 ^ 53) + 1 / 2 ^ 53 +
       (1 / 2 ^ 53 + 1 / 2 ^ 53 + 1 / 2 ^ 53 * (1 / 2 ^ 53)) * (1 / 2 ^ 53) + 1 / 2 ^ 53) /
      (1 - 1 / 2 ^ 53)"
    unfolding r_def by simp
  also have "\<dots> \<le> (1 / 2 ^ 50 :: real)" by simp
  finally have rb: "\<bar>r - 1\<bar> \<le> 1 / 2 ^ 50" .
  have "n - q / (x * c) = q / (x * c) * (r - 1)"
    by (simp only: v right_diff_distrib mult_1_right)
  then have "\<bar>n - q / (x * c)\<bar> = \<bar>q / (x * c)\<bar> * \<bar>r - 1\<bar>"
    by (simp only: abs_mult)
  also have "\<dots> \<le> \<bar>q / (x * c)\<bar> * (1 / 2 ^ 50)"
    using rb by (intro mult_left_mono) simp_all
  finally show ?thesis
    by (simp add: n_def m_def a_def p_def)
qed

subsection \<open>NTU and the factor \<open>U\<close>\<close>

text \<open>The roundings that occur in lines 165 to 198 at the dyadic input, for \<open>U\<close> 500 and 13.\<close>

lemma rnd_n0: "rnd (12) = 12"
  using rnd_near_neg [of "12" 49 "6755399441055744"] by simp

lemma rnd_n1: "rnd (45) = 45"
  using rnd_near_neg [of "45" 47 "6333186975989760"] by simp

lemma rnd_n2: "rnd (540) = 540"
  using rnd_near_neg [of "540" 43 "4749890231992320"] by simp

lemma rnd_n3: "rnd (1080) = 1080"
  using rnd_near_neg [of "1080" 42 "4749890231992320"] by simp

lemma rnd_n4: "rnd (540000) = 540000"
  using rnd_near_neg [of "540000" 33 "4638564679680000"] by simp

lemma rnd_n5: "rnd (80) = 80"
  using rnd_near_neg [of "80" 46 "5629499534213120"] by simp

lemma rnd_n6: "rnd (1 / 1000000) = 4722366482869645 / 4722366482869645213696"
  using rnd_near_neg [of "1 / 1000000" 72 "4722366482869645"] by simp

lemma rnd_n7: "rnd (12000) = 12000"
  using rnd_near_neg [of "12000" 39 "6597069766656000"] by simp

lemma rnd_n8: "rnd (40000) = 40000"
  using rnd_near_neg [of "40000" 37 "5497558138880000"] by simp

lemma rnd_n9: "rnd (27 / 2) = 27 / 2"
  using rnd_near_neg [of "27 / 2" 49 "7599824371187712"] by simp

lemma rnd_n10: "rnd (6750) = 6750"
  using rnd_near_neg [of "6750" 40 "7421703487488000"] by simp

lemma rnd_n11: "rnd (9 / 16) = 9 / 16"
  using rnd_near_neg [of "9 / 16" 53 "5066549580791808"] by simp

lemma rnd_n12: "rnd (1040) = 1040"
  using rnd_near_neg [of "1040" 42 "4573968371548160"] by simp

lemma rnd_n13: "rnd (6750 / 13) = 2283601073073231 / 4398046511104"
  using rnd_near_neg [of "6750 / 13" 43 "4567202146146462"] by simp

lemma rnd_n14: "rnd (29686813949952003 / 4398046511104) = 7421703487488001 / 1099511627776"
  using rnd_near_neg [of "29686813949952003 / 4398046511104" 40 "7421703487488001"] by simp

lemma rnd_n15: "rnd (7421703487488001 / 13194139533312000) = 5066549580791809 / 9007199254740992"
  using rnd_near_neg [of "7421703487488001 / 13194139533312000" 53 "5066549580791809"] by simp

lemmas dyadic_roundings = rnd_n0 rnd_n1 rnd_n2 rnd_n3 rnd_n4 rnd_n5 rnd_n6 rnd_n7 rnd_n8 rnd_n9 rnd_n10 rnd_n11 rnd_n12 rnd_n13 rnd_n14 rnd_n15

lemma dyadic_calc:
  "Q_double (dyadic_input u) = 540000" "C_min_double (dyadic_input u) = 12000"
  "dT1_double (dyadic_input u) = 80" "dT2_double (dyadic_input u) = 80"
  "U (dyadic_input u) = u"
  by (simp_all add: Q_double_def Q_avg_double_def Q_hot_double_def Q_cold_double_def
      C_min_double_def C_hot_double_def C_cold_double_def dT1_double_def dT2_double_def
      dyadic_input_def dyadic_roundings)

lemma dyadic_LMTD: "LMTD_double lg (dyadic_input u) = Inr (PyFloat 80)"
  by (simp add: LMTD_double_def dyadic_calc rnd_0 dyadic_roundings)

lemma dyadic_NTU_500: "NTU_double lg (dyadic_input 500) = Inr (PyFloat (9 / 16))"
  by (simp add: NTU_double_def A_double_def dyadic_LMTD dyadic_calc bind_err_def
      dyadic_roundings)

lemma dyadic_NTU_13:
  "NTU_double lg (dyadic_input 13) =
     Inr (PyFloat (5066549580791809 / 9007199254740992))"
  by (simp add: NTU_double_def A_double_def dyadic_LMTD dyadic_calc bind_err_def
      dyadic_roundings)

lemma both_close:
  fixes a b q e :: real
  shows "\<bar>a - q\<bar> \<le> e \<Longrightarrow> \<bar>b - q\<bar> \<le> e \<Longrightarrow> \<bar>a - b\<bar> \<le> 2 * e"
  by linarith

lemma NTU_double_value:
  assumes "U inp \<noteq> 0" "C_min_double inp \<noteq> 0" "LMTD_double lg inp = Inr l"
    "to_np l = Fin x" "x \<noteq> 0"
  shows "\<exists>n. NTU_double lg inp = Inr n \<and>
    to_np n = Fin (rnd (rnd (U inp * rnd (Q_double inp / rnd (U inp * x))) / C_min_double inp))"
proof (cases l)
  case (PyFloat y)
  with assms show ?thesis
    by (simp add: NTU_double_def A_double_def bind_err_def rnd_eq_0_iff)
next
  case (NpFloat w)
  with assms show ?thesis
    by (simp add: NTU_double_def A_double_def bind_err_def rnd_eq_0_iff)
qed

text \<open>
  C10, as the specification states it: when \<open>U\<close>, \<open>LMTD\<close> and \<open>C_min\<close> are not zero, the
  computed NTU equals \<open>Q / (LMTD * C_min)\<close> and does not depend on \<open>U\<close>. In double
  precision the factor \<open>U\<close> does not cancel exactly. At the dyadic input, where \<open>Q\<close>,
  \<open>LMTD\<close> and \<open>C_min\<close> are 540000, 80 and 12000 and the quotient is 0.5625, the NTU is
  0.5625 for \<open>U = 500\<close> and the next double above it for \<open>U = 13\<close>.
\<close>

theorem NTU_double_varies_counterexample:
  "U (dyadic_input 13) \<noteq> 0 \<and> U (dyadic_input 500) \<noteq> 0 \<and>
   Q_double (dyadic_input 13) = 540000 \<and> C_min_double (dyadic_input 13) = 12000 \<and>
   LMTD_double np_log (dyadic_input 13) = Inr (PyFloat 80) \<and>
   (540000 :: real) / (80 * 12000) = 9 / 16 \<and>
   NTU_double np_log (dyadic_input 500) = Inr (PyFloat (9 / 16)) \<and>
   NTU_double np_log (dyadic_input 13) = Inr (PyFloat (9 / 16 + 1 / 2 ^ 53)) \<and>
   NTU_double np_log (dyadic_input 13) \<noteq> NTU_double np_log (dyadic_input 500)"
  by (simp add: dyadic_calc dyadic_LMTD dyadic_NTU_500 dyadic_NTU_13)

text \<open>
  C10, amended: when \<open>U\<close>, \<open>LMTD\<close> and \<open>C_min\<close> are not zero and \<open>LMTD\<close> is finite, the
  computed NTU is finite and differs from \<open>Q / (LMTD * C_min)\<close>, the quotient of the
  computed values, by at most \<open>2\<^sup>-\<^sup>5\<^sup>0\<close> of its size: the factor \<open>U\<close> cancels up to the four
  roundings of lines 184 and 198. Another nonzero \<open>U\<close> gives an NTU within \<open>2\<^sup>-\<^sup>4\<^sup>9\<close> of
  that size of the first.
\<close>

theorem NTU_double_close:
  assumes "U inp \<noteq> 0" "C_min_double inp \<noteq> 0" "LMTD_double lg inp = Inr l"
    "to_np l = Fin x" "x \<noteq> 0"
  shows "\<exists>n v. NTU_double lg inp = Inr n \<and> to_np n = Fin v \<and>
      \<bar>v - Q_double inp / (x * C_min_double inp)\<bar> \<le>
        \<bar>Q_double inp / (x * C_min_double inp)\<bar> / 2 ^ 50 \<and>
      (\<forall>u. u \<noteq> 0 \<longrightarrow>
         (\<exists>n' v'. NTU_double lg (inp\<lparr>U := u\<rparr>) = Inr n' \<and> to_np n' = Fin v' \<and>
            \<bar>v' - v\<bar> \<le> \<bar>Q_double inp / (x * C_min_double inp)\<bar> / 2 ^ 49))"
proof -
  let ?q = "Q_double inp / (x * C_min_double inp)"
  let ?v = "\<lambda>u. rnd (rnd (u * rnd (Q_double inp / rnd (u * x))) / C_min_double inp)"
  from NTU_double_value [OF assms]
  obtain n where n: "NTU_double lg inp = Inr n" "to_np n = Fin (?v (U inp))"
    by blast
  have c: "\<bar>?v u - ?q\<bar> \<le> \<bar>?q\<bar> / 2 ^ 50" if "u \<noteq> 0" for u
    using that assms(5,2) by (rule ntu_val_close)
  have o: "\<exists>n' v'. NTU_double lg (inp\<lparr>U := u\<rparr>) = Inr n' \<and> to_np n' = Fin v' \<and>
            \<bar>v' - ?v (U inp)\<bar> \<le> \<bar>?q\<bar> / 2 ^ 49" if u: "u \<noteq> 0" for u
  proof -
    have i: "Q_double (inp\<lparr>U := u\<rparr>) = Q_double inp"
      "C_min_double (inp\<lparr>U := u\<rparr>) = C_min_double inp"
      "LMTD_double lg (inp\<lparr>U := u\<rparr>) = LMTD_double lg inp"
      by (simp_all add: LMTD_double_def Q_double_def Q_avg_double_def Q_hot_double_def
          Q_cold_double_def C_min_double_def C_hot_double_def C_cold_double_def
          dT1_double_def dT2_double_def)
    have "U (inp\<lparr>U := u\<rparr>) \<noteq> 0" "C_min_double (inp\<lparr>U := u\<rparr>) \<noteq> 0"
      "LMTD_double lg (inp\<lparr>U := u\<rparr>) = Inr l"
      using u assms by (simp_all add: i)
    from NTU_double_value [OF this assms(4,5)]
    obtain n' where n': "NTU_double lg (inp\<lparr>U := u\<rparr>) = Inr n'" "to_np n' = Fin (?v u)"
      by (auto simp: i)
    define e where "e = \<bar>?q\<bar> / 2 ^ 50"
    from c [OF u] c [OF assms(1)] have "\<bar>?v u - ?q\<bar> \<le> e" "\<bar>?v (U inp) - ?q\<bar> \<le> e"
      unfolding e_def by blast+
    then have "\<bar>?v u - ?v (U inp)\<bar> \<le> 2 * e" by (rule both_close)
    also have "2 * e = \<bar>?q\<bar> / 2 ^ 49" by (simp add: e_def)
    finally have "\<bar>?v u - ?v (U inp)\<bar> \<le> \<bar>?q\<bar> / 2 ^ 49" .
    with n' show ?thesis by blast
  qed
  from n c [OF assms(1)] o show ?thesis by blast
qed

theorem NTU_double_close_witness:
  "U (dyadic_input 13) \<noteq> 0 \<and> C_min_double (dyadic_input 13) \<noteq> 0 \<and>
   LMTD_double np_log (dyadic_input 13) = Inr (PyFloat 80) \<and>
   to_np (PyFloat 80) = Fin 80 \<and> (80 :: real) \<noteq> 0 \<and>
   (\<exists>n v. NTU_double np_log (dyadic_input 13) = Inr n \<and> to_np n = Fin v \<and>
      \<bar>v - 9 / 16\<bar> \<le> 9 / 16 / 2 ^ 50 \<and>
      (\<exists>n' v'. NTU_double np_log (dyadic_input 500) = Inr n' \<and> to_np n' = Fin v' \<and>
         \<bar>v' - v\<bar> \<le> 9 / 16 / 2 ^ 49))"
proof -
  have h: "U (dyadic_input 13) \<noteq> 0" "C_min_double (dyadic_input 13) \<noteq> 0"
    "LMTD_double np_log (dyadic_input 13) = Inr (PyFloat 80)"
    "to_np (PyFloat 80) = Fin 80" "(80 :: real) \<noteq> 0"
    by (simp_all add: dyadic_calc dyadic_LMTD)
  have q: "\<bar>Q_double (dyadic_input 13) / (80 * C_min_double (dyadic_input 13))\<bar> = 9 / 16"
    "Q_double (dyadic_input 13) / (80 * C_min_double (dyadic_input 13)) = 9 / 16"
    by (simp_all add: dyadic_calc)
  have u: "dyadic_input 13\<lparr>U := 500\<rparr> = dyadic_input 500" "(500 :: real) \<noteq> 0"
    by (simp_all add: dyadic_input_def)
  from NTU_double_close [OF h]
  obtain n v where n: "NTU_double np_log (dyadic_input 13) = Inr n" "to_np n = Fin v"
    and b: "\<bar>v - Q_double (dyadic_input 13) / (80 * C_min_double (dyadic_input 13))\<bar> \<le>
        \<bar>Q_double (dyadic_input 13) / (80 * C_min_double (dyadic_input 13))\<bar> / 2 ^ 50"
    and o: "\<forall>u. u \<noteq> 0 \<longrightarrow>
         (\<exists>n' v'. NTU_double np_log (dyadic_input 13\<lparr>U := u\<rparr>) = Inr n' \<and> to_np n' = Fin v' \<and>
            \<bar>v' - v\<bar> \<le>
              \<bar>Q_double (dyadic_input 13) / (80 * C_min_double (dyadic_input 13))\<bar> / 2 ^ 49)"
    by blast
  from b have b': "\<bar>v - 9 / 16\<bar> \<le> 9 / 16 / 2 ^ 50"
    by (simp add: q(2))
  from o u(2) have "\<exists>n' v'. NTU_double np_log (dyadic_input 13\<lparr>U := 500\<rparr>) = Inr n' \<and>
      to_np n' = Fin v' \<and>
      \<bar>v' - v\<bar> \<le> \<bar>Q_double (dyadic_input 13) / (80 * C_min_double (dyadic_input 13))\<bar> / 2 ^ 49"
    by blast
  then have "\<exists>n' v'. NTU_double np_log (dyadic_input 500) = Inr n' \<and> to_np n' = Fin v' \<and>
            \<bar>v' - v\<bar> \<le> 9 / 16 / 2 ^ 49"
    by (simp add: q(2) u(1))
  with n b' h show ?thesis by blast
qed

subsection \<open>Temperature profile\<close>

lemma length_linspace: "length (linspace a b n) = n"
  by (simp add: linspace_def Let_def)

lemma hd_linspace: "0 < n \<Longrightarrow> hd (linspace a b n) = rnd a"
  by (simp add: linspace_def Let_def hd_conv_nth nth_list_update rnd_0)

lemma last_linspace: "1 < n \<Longrightarrow> last (linspace a b n) = b"
  by (simp add: linspace_def Let_def last_conv_nth)

lemma linspace_50_nonempty: "linspace a b 50 \<noteq> []"
  using length_linspace [of a b 50] by auto

lemma profile_cf:
  "configuration inp = Counterflow \<Longrightarrow> temperature_profile inp =
     (linspace 0 1 50,
      map (\<lambda>xi. rnd (Th_in inp - rnd (rnd (Th_in inp - Th_out inp) * xi))) (linspace 0 1 50),
      map (\<lambda>xi. rnd (Tc_out inp - rnd (rnd (Tc_out inp - Tc_in inp) * xi))) (linspace 0 1 50))"
  by (simp add: temperature_profile_def Let_def)

lemma profile_pf:
  "configuration inp = ParallelFlow \<Longrightarrow> temperature_profile inp =
     (linspace 0 1 50,
      map (\<lambda>xi. rnd (Th_in inp - rnd (rnd (Th_in inp - Th_out inp) * xi))) (linspace 0 1 50),
      map (\<lambda>xi. rnd (Tc_in inp + rnd (rnd (Tc_out inp - Tc_in inp) * xi))) (linspace 0 1 50))"
  by (simp add: temperature_profile_def Let_def)

lemma profile_depends:
  assumes "Th_in inp' = Th_in inp" "Th_out inp' = Th_out inp" "Tc_in inp' = Tc_in inp"
    "Tc_out inp' = Tc_out inp" "configuration inp' = configuration inp"
  shows "temperature_profile inp' = temperature_profile inp"
  unfolding temperature_profile_def assms ..

text \<open>Going from \<open>a\<close> back to \<open>b\<close> through the rounded difference misses \<open>b\<close> by two roundings.\<close>

lemma back_err: "\<bar>rnd (a - rnd (a - b)) - b\<bar> \<le> (\<bar>a - b\<bar> + \<bar>b\<bar>) / 2 ^ 52"
proof -
  have e1: "\<bar>rnd (a - b) - (a - b)\<bar> \<le> \<bar>a - b\<bar> / 2 ^ 53"
    by (rule rnd_error)
  have e2: "\<bar>rnd (a - rnd (a - b)) - (a - rnd (a - b))\<bar> \<le> \<bar>a - rnd (a - b)\<bar> / 2 ^ 53"
    by (rule rnd_error)
  from e1 have m: "\<bar>a - rnd (a - b)\<bar> \<le> \<bar>b\<bar> + \<bar>a - b\<bar> / 2 ^ 53"
    by linarith
  then have "\<bar>a - rnd (a - b)\<bar> / 2 ^ 53 \<le> (\<bar>b\<bar> + \<bar>a - b\<bar> / 2 ^ 53) / 2 ^ 53"
    by (rule divide_right_mono) simp
  also have "\<dots> \<le> \<bar>b\<bar> / 2 ^ 53 + \<bar>a - b\<bar> / 2 ^ 53"
    by (simp add: field_simps)
  finally have "\<bar>rnd (a - rnd (a - b)) - (a - rnd (a - b))\<bar> \<le> \<bar>b\<bar> / 2 ^ 53 + \<bar>a - b\<bar> / 2 ^ 53"
    using e2 by linarith
  with e1 have "\<bar>rnd (a - rnd (a - b)) - b\<bar> \<le> 2 * (\<bar>a - b\<bar> / 2 ^ 53) + \<bar>b\<bar> / 2 ^ 53"
    by linarith
  also have "\<dots> \<le> (\<bar>a - b\<bar> + \<bar>b\<bar>) / 2 ^ 52"
    by (simp add: field_simps)
  finally show ?thesis .
qed

lemma forth_err: "\<bar>rnd (a + rnd (b - a)) - b\<bar> \<le> (\<bar>b - a\<bar> + \<bar>b\<bar>) / 2 ^ 52"
proof -
  have e1: "\<bar>rnd (b - a) - (b - a)\<bar> \<le> \<bar>b - a\<bar> / 2 ^ 53"
    by (rule rnd_error)
  have e2: "\<bar>rnd (a + rnd (b - a)) - (a + rnd (b - a))\<bar> \<le> \<bar>a + rnd (b - a)\<bar> / 2 ^ 53"
    by (rule rnd_error)
  from e1 have m: "\<bar>a + rnd (b - a)\<bar> \<le> \<bar>b\<bar> + \<bar>b - a\<bar> / 2 ^ 53"
    by linarith
  then have "\<bar>a + rnd (b - a)\<bar> / 2 ^ 53 \<le> (\<bar>b\<bar> + \<bar>b - a\<bar> / 2 ^ 53) / 2 ^ 53"
    by (rule divide_right_mono) simp
  also have "\<dots> \<le> \<bar>b\<bar> / 2 ^ 53 + \<bar>b - a\<bar> / 2 ^ 53"
    by (simp add: field_simps)
  finally have "\<bar>rnd (a + rnd (b - a)) - (a + rnd (b - a))\<bar> \<le> \<bar>b\<bar> / 2 ^ 53 + \<bar>b - a\<bar> / 2 ^ 53"
    using e2 by linarith
  with e1 have "\<bar>rnd (a + rnd (b - a)) - b\<bar> \<le> 2 * (\<bar>b - a\<bar> / 2 ^ 53) + \<bar>b\<bar> / 2 ^ 53"
    by linarith
  also have "\<dots> \<le> (\<bar>b - a\<bar> + \<bar>b\<bar>) / 2 ^ 52"
    by (simp add: field_simps)
  finally show ?thesis .
qed

text \<open>The roundings at the profile input.\<close>

lemma rnd_10_3: "rnd (103 / 10) = 2899192260119757 / 281474976710656"
  using rnd_near_neg [of "103 / 10" 49 "5798384520239514"] by simp

lemma rnd_44_9: "rnd (449 / 10) = 6319113227154227 / 140737488355328"
  using rnd_near_neg [of "449 / 10" 47 "6319113227154227"] by simp

lemma rnd_Tc_in: "rnd (2899192260119757 / 281474976710656) = 2899192260119757 / 281474976710656"
  using rnd_near_neg [of "2899192260119757 / 281474976710656" 49 "5798384520239514"] by simp

lemma rnd_Tc_out: "rnd (6319113227154227 / 140737488355328) = 6319113227154227 / 140737488355328"
  using rnd_near_neg [of "6319113227154227 / 140737488355328" 47 "6319113227154227"] by simp

lemma rnd_Tc_diff: "rnd (9739034194188697 / 281474976710656) = 1217379274273587 / 35184372088832"
  using rnd_tie_neg [of "9739034194188697 / 281474976710656" 47 "4869517097094348"] by simp

lemma rnd_Tc_diff_again: "rnd (1217379274273587 / 35184372088832) = 1217379274273587 / 35184372088832"
  using rnd_near_neg [of "1217379274273587 / 35184372088832" 47 "4869517097094348"] by simp

lemma rnd_Tc_last: "rnd (12638226454308453 / 281474976710656) = 3159556613577113 / 70368744177664"
  using rnd_tie_neg [of "12638226454308453 / 281474976710656" 47 "6319113227154226"] by simp

lemma rnd_150: "rnd (150) = 150"
  using rnd_near_neg [of "150" 45 "5277655813324800"] by simp

lemma rnd_90: "rnd (90) = 90"
  using rnd_near_neg [of "90" 46 "6333186975989760"] by simp

lemma rnd_60: "rnd (60) = 60"
  using rnd_near_neg [of "60" 47 "8444249301319680"] by simp

lemma rnd_Tc_back: "rnd (1449596130059879 / 140737488355328) = 1449596130059879 / 140737488355328"
  using rnd_near_neg [of "1449596130059879 / 140737488355328" 49 "5798384520239516"] by simp

lemmas profile_roundings = rnd_Tc_in rnd_Tc_out rnd_Tc_diff rnd_Tc_diff_again rnd_Tc_last
  rnd_Tc_back rnd_150 rnd_90 rnd_60

lemma profile_input_doubles:
  "is_double (Th_in (profile_input c))" "is_double (Th_out (profile_input c))"
  "is_double (Tc_in (profile_input c))" "is_double (Tc_out (profile_input c))"
  by (simp_all add: is_double_def profile_input_def profile_roundings)

lemma profile_input_last_Tc:
  "last (snd (snd (temperature_profile (profile_input ParallelFlow)))) =
     3159556613577113 / 70368744177664"
  by (simp add: profile_pf profile_input_def last_map linspace_50_nonempty last_linspace
      profile_roundings)

text \<open>
  C8, as the specification states it: the sequence has the requested number of samples
  (50 by default), its first sample is \<open>(Th_in, Tc_out)\<close> for counterflow and
  \<open>(Th_in, Tc_in)\<close> for parallel flow, its last sample is \<open>(Th_out, Tc_in)\<close> for counterflow
  and \<open>(Th_out, Tc_out)\<close> for parallel flow, and equal inputs give equal sequences. The last
  sample is computed as \<open>Tc_in + (Tc_out - Tc_in) * 1\<close>, which in double precision need not
  be \<open>Tc_out\<close>: with the cold fluid going from 10.3 to 44.9 degrees in parallel flow, the
  last cold sample is the double below \<open>Tc_out\<close>.
\<close>

theorem profile_last_sample_counterexample:
  "Tc_in (profile_input ParallelFlow) = rnd (103 / 10) \<and>
   Tc_out (profile_input ParallelFlow) = rnd (449 / 10) \<and>
   is_double (Th_in (profile_input ParallelFlow)) \<and>
   is_double (Th_out (profile_input ParallelFlow)) \<and>
   configuration (profile_input ParallelFlow) = ParallelFlow \<and>
   last (snd (snd (temperature_profile (profile_input ParallelFlow)))) =
     3159556613577113 / 70368744177664 \<and>
   Tc_out (profile_input ParallelFlow) = 6319113227154227 / 140737488355328 \<and>
   last (snd (snd (temperature_profile (profile_input ParallelFlow)))) \<noteq>
     Tc_out (profile_input ParallelFlow)"
proof -
  have "Tc_in (profile_input ParallelFlow) = rnd (103 / 10)"
    "Tc_out (profile_input ParallelFlow) = rnd (449 / 10)"
    "configuration (profile_input ParallelFlow) = ParallelFlow"
    "Tc_out (profile_input ParallelFlow) = 6319113227154227 / 140737488355328"
    by (simp_all add: profile_input_def rnd_10_3 rnd_44_9)
  with profile_input_doubles [of ParallelFlow] profile_input_last_Tc show ?thesis
    by simp
qed

text \<open>
  C8, amended, for inputs that are doubles. The sequence always has 50 samples: the count
  is the literal the script passes to \<open>np.linspace\<close>, which returns as many samples as it
  is asked for; the script has no parameter for it. The first sample is at \<open>x = 0\<close> and is
  exactly \<open>(Th_in, Tc_out)\<close> for counterflow and \<open>(Th_in, Tc_in)\<close> for parallel flow. The
  last sample is at \<open>x = 1\<close>; its hot value is \<open>Th_in - (Th_in - Th_out)\<close> and its cold value
  \<open>Tc_out - (Tc_out - Tc_in)\<close> for counterflow and \<open>Tc_in + (Tc_out - Tc_in)\<close> for parallel
  flow, each with two roundings, so it is the outlet (or, for the cold side in
  counterflow, the inlet) value up to \<open>2\<^sup>-\<^sup>5\<^sup>2\<close> of the size of the difference plus that
  value. The sequence depends on the four temperatures and the configuration only, so
  equal inputs give equal sequences.
\<close>

theorem temperature_profile_endpoints:
  assumes "is_double (Th_in inp)" "is_double (Th_out inp)"
    "is_double (Tc_in inp)" "is_double (Tc_out inp)"
  shows "(case temperature_profile inp of (x, Th, Tc) \<Rightarrow>
      length x = 50 \<and> length Th = 50 \<and> length Tc = 50 \<and>
      hd x = 0 \<and> last x = 1 \<and>
      hd Th = Th_in inp \<and>
      last Th = rnd (Th_in inp - rnd (Th_in inp - Th_out inp)) \<and>
      \<bar>last Th - Th_out inp\<bar> \<le> (\<bar>Th_in inp - Th_out inp\<bar> + \<bar>Th_out inp\<bar>) / 2 ^ 52 \<and>
      (configuration inp = Counterflow \<longrightarrow>
         hd Tc = Tc_out inp \<and>
         last Tc = rnd (Tc_out inp - rnd (Tc_out inp - Tc_in inp)) \<and>
         \<bar>last Tc - Tc_in inp\<bar> \<le> (\<bar>Tc_out inp - Tc_in inp\<bar> + \<bar>Tc_in inp\<bar>) / 2 ^ 52) \<and>
      (configuration inp = ParallelFlow \<longrightarrow>
         hd Tc = Tc_in inp \<and>
         last Tc = rnd (Tc_in inp + rnd (Tc_out inp - Tc_in inp)) \<and>
         \<bar>last Tc - Tc_out inp\<bar> \<le> (\<bar>Tc_out inp - Tc_in inp\<bar> + \<bar>Tc_out inp\<bar>) / 2 ^ 52)) \<and>
   (\<forall>n. length (linspace 0 1 n) = n) \<and>
   (\<forall>inp'. Th_in inp' = Th_in inp \<and> Th_out inp' = Th_out inp \<and> Tc_in inp' = Tc_in inp \<and>
           Tc_out inp' = Tc_out inp \<and> configuration inp' = configuration inp \<longrightarrow>
           temperature_profile inp' = temperature_profile inp)"
proof -
  have h: "hd (linspace 0 1 50) = 0" and l: "last (linspace 0 1 50) = 1"
    by (simp_all add: hd_linspace last_linspace rnd_0)
  from assms have d: "rnd (Th_in inp) = Th_in inp" "rnd (Tc_in inp) = Tc_in inp"
    "rnd (Tc_out inp) = Tc_out inp"
    by (simp_all add: is_double_def)
  have e: "case temperature_profile inp of (x, Th, Tc) \<Rightarrow>
      length x = 50 \<and> length Th = 50 \<and> length Tc = 50 \<and>
      hd x = 0 \<and> last x = 1 \<and>
      hd Th = Th_in inp \<and>
      last Th = rnd (Th_in inp - rnd (Th_in inp - Th_out inp)) \<and>
      \<bar>last Th - Th_out inp\<bar> \<le> (\<bar>Th_in inp - Th_out inp\<bar> + \<bar>Th_out inp\<bar>) / 2 ^ 52 \<and>
      (configuration inp = Counterflow \<longrightarrow>
         hd Tc = Tc_out inp \<and>
         last Tc = rnd (Tc_out inp - rnd (Tc_out inp - Tc_in inp)) \<and>
         \<bar>last Tc - Tc_in inp\<bar> \<le> (\<bar>Tc_out inp - Tc_in inp\<bar> + \<bar>Tc_in inp\<bar>) / 2 ^ 52) \<and>
      (configuration inp = ParallelFlow \<longrightarrow>
         hd Tc = Tc_in inp \<and>
         last Tc = rnd (Tc_in inp + rnd (Tc_out inp - Tc_in inp)) \<and>
         \<bar>last Tc - Tc_out inp\<bar> \<le> (\<bar>Tc_out inp - Tc_in inp\<bar> + \<bar>Tc_out inp\<bar>) / 2 ^ 52)"
  proof (cases "configuration inp")
    case Counterflow
    then show ?thesis
      using back_err [of "Th_in inp" "Th_out inp"] back_err [of "Tc_out inp" "Tc_in inp"]
      by (simp add: profile_cf length_linspace hd_map last_map linspace_50_nonempty h l
          rnd_0 rnd_rnd d)
  next
    case ParallelFlow
    then show ?thesis
      using back_err [of "Th_in inp" "Th_out inp"] forth_err [of "Tc_in inp" "Tc_out inp"]
      by (simp add: profile_pf length_linspace hd_map last_map linspace_50_nonempty h l
          rnd_0 rnd_rnd d)
  qed
  from e length_linspace profile_depends show ?thesis by blast
qed

theorem temperature_profile_endpoints_witness:
  "is_double (Th_in (profile_input Counterflow)) \<and>
   is_double (Th_out (profile_input Counterflow)) \<and>
   is_double (Tc_in (profile_input Counterflow)) \<and>
   is_double (Tc_out (profile_input Counterflow)) \<and>
   configuration (profile_input Counterflow) = Counterflow \<and>
   (case temperature_profile (profile_input Counterflow) of (x, Th, Tc) \<Rightarrow>
      length Th = 50 \<and> hd Th = 150 \<and> last Th = 90 \<and>
      hd Tc = 6319113227154227 / 140737488355328 \<and>
      last Tc = 1449596130059879 / 140737488355328) \<and>
   is_double (Th_in (profile_input ParallelFlow)) \<and>
   is_double (Th_out (profile_input ParallelFlow)) \<and>
   is_double (Tc_in (profile_input ParallelFlow)) \<and>
   is_double (Tc_out (profile_input ParallelFlow)) \<and>
   configuration (profile_input ParallelFlow) = ParallelFlow \<and>
   (case temperature_profile (profile_input ParallelFlow) of (x, Th, Tc) \<Rightarrow>
      length Th = 50 \<and> hd Th = 150 \<and> last Th = 90 \<and>
      hd Tc = 2899192260119757 / 281474976710656 \<and>
      last Tc = 3159556613577113 / 70368744177664) \<and>
   temperature_profile ((profile_input ParallelFlow)\<lparr>U := 1\<rparr>) =
     temperature_profile (profile_input ParallelFlow)"
proof -
  have c: "configuration (profile_input Counterflow) = Counterflow"
    "configuration (profile_input ParallelFlow) = ParallelFlow"
    by (simp_all add: profile_input_def)
  have v: "Th_in (profile_input c) = 150" "Th_out (profile_input c) = 90"
    "Tc_in (profile_input c) = 2899192260119757 / 281474976710656"
    "Tc_out (profile_input c) = 6319113227154227 / 140737488355328" for c
    by (simp_all add: profile_input_def)
  have u: "temperature_profile ((profile_input ParallelFlow)\<lparr>U := 1\<rparr>) =
      temperature_profile (profile_input ParallelFlow)"
    by (rule temperature_profile_endpoints [OF profile_input_doubles [of ParallelFlow],
          THEN conjunct2, THEN conjunct2, THEN spec, THEN mp]) simp
  from temperature_profile_endpoints [OF profile_input_doubles [of Counterflow], THEN conjunct1]
  have a: "case temperature_profile (profile_input Counterflow) of (x, Th, Tc) \<Rightarrow>
      length Th = 50 \<and> hd Th = 150 \<and> last Th = 90 \<and>
      hd Tc = 6319113227154227 / 140737488355328 \<and>
      last Tc = 1449596130059879 / 140737488355328"
    by (simp add: split_beta c v profile_roundings)
  from temperature_profile_endpoints [OF profile_input_doubles [of ParallelFlow], THEN conjunct1]
  have b: "case temperature_profile (profile_input ParallelFlow) of (x, Th, Tc) \<Rightarrow>
      length Th = 50 \<and> hd Th = 150 \<and> last Th = 90 \<and>
      hd Tc = 2899192260119757 / 281474976710656 \<and>
      last Tc = 3159556613577113 / 70368744177664"
    by (simp add: split_beta c v profile_roundings)
  from a b c u profile_input_doubles show ?thesis by simp
qed

subsection \<open>The worked example of the specification\<close>

text \<open>
  The example needs \<open>ln (16 / 13)\<close> to five digits. The Maclaurin expansion of \<open>exp\<close>
  to degree five, with its remainder bounded on \<open>[0, 1]\<close>, gives both bounds.
\<close>

lemma exp_Taylor6:
  fixes x :: real
  assumes "0 \<le> x" "x \<le> 1"
  shows "1 + x + x^2 / 2 + x^3 / 6 + x^4 / 24 + x^5 / 120 \<le> exp x"
    and "exp x \<le> 1 + x + x^2 / 2 + x^3 / 6 + x^4 / 24 + x^5 / 120 + x^6 / 240"
proof -
  obtain t where t: "\<bar>t\<bar> \<le> \<bar>x\<bar>"
    and e: "exp x = (\<Sum>m<6. (x ^ m) / fact m) + (exp t / fact 6) * x ^ 6"
    using Maclaurin_exp_le [of x 6] by blast
  have s: "(\<Sum>m<6. (x ^ m) / fact m) = 1 + x + x^2 / 2 + x^3 / 6 + x^4 / 24 + x^5 / 120"
    by (simp add: numeral_eq_Suc fact_numeral)
  have f: "fact 6 = (720::real)"
    by (simp add: fact_numeral)
  have p: "0 \<le> x ^ 6" using assms by simp
  have "0 \<le> exp t / 720 * x ^ 6"
    using p by simp
  with e s f show "1 + x + x^2 / 2 + x^3 / 6 + x^4 / 24 + x^5 / 120 \<le> exp x"
    by simp
  from t assms have "t \<le> x" by simp
  then have "exp t \<le> exp x" by simp
  also have "exp x \<le> 1 + x + x\<^sup>2" using assms by (rule exp_bound)
  also have "\<dots> \<le> 3"
  proof -
    have "x\<^sup>2 \<le> 1" using assms by (simp add: power_le_one)
    with assms show ?thesis by linarith
  qed
  finally have "exp t \<le> 3" .
  then have "exp t / 720 * x ^ 6 \<le> 3 / 720 * x ^ 6"
    using p by (intro mult_right_mono divide_right_mono) simp_all
  with e s f show "exp x \<le> 1 + x + x^2 / 2 + x^3 / 6 + x^4 / 24 + x^5 / 120 + x^6 / 240"
    by simp
qed

lemma ln_16_13_lower: "20763 / 100000 < ln (16 / 13 :: real)"
proof -
  have "exp (20763 / 100000 :: real) < 16 / 13"
    by (rule le_less_trans [OF exp_Taylor6(2)]) (simp_all add: power_divide)
  then have "ln (exp (20763 / 100000 :: real)) < ln (16 / 13)"
    by (subst ln_less_cancel_iff) simp_all
  then show ?thesis by simp
qed

lemma ln_16_13_upper: "ln (16 / 13 :: real) < 20765 / 100000"
proof -
  have "(16 / 13 :: real) < exp (20765 / 100000)"
    by (rule less_le_trans [OF _ exp_Taylor6(1)]) (simp_all add: power_divide)
  then have "ln (16 / 13 :: real) < ln (exp (20765 / 100000))"
    by (subst ln_less_cancel_iff) simp_all
  then show ?thesis by simp
qed

lemma spec_example_LMTD:
  "LMTD_of spec_example_input = Inr (NpFloat (Fin (15 / ln (16 / 13))))"
  by (simp add: LMTD_of_def float_div_def bind_err_def np_log_def dT1_of_def dT2_of_def
      spec_example_input_def)

lemma spec_example_calc:
  "Q_hot_of spec_example_input = 627" "Q_cold_of spec_example_input = 5643 / 10"
  "Q_avg_of spec_example_input = 59565 / 100" "Q_of spec_example_input = 595650"
  "dT1_of spec_example_input = 80" "dT2_of spec_example_input = 65"
  "C_hot_of spec_example_input = 10450" "C_cold_of spec_example_input = 12540"
  "C_min_of spec_example_input = 10450" "C_max_of spec_example_input = 12540"
  "Q_max_of spec_example_input = 1306250" "U spec_example_input = 500"
  by (simp_all add: calc_defs spec_example_input_def)

lemma spec_example_A:
  "A_of spec_example_input = Inr (NpFloat (Fin (595650 / (500 * (15 / ln (16 / 13))))))"
  by (simp add: A_of_def spec_example_LMTD spec_example_calc bind_err_def)

lemma spec_example_NTU:
  "NTU_of spec_example_input =
     Inr (NpFloat (Fin (500 * (595650 / (500 * (15 / ln (16 / 13)))) / 10450)))"
  by (simp add: NTU_of_def spec_example_A spec_example_calc bind_err_def)

lemma spec_example_rest:
  "C_ratio_of spec_example_input = Inr (5 / 6)"
  "effectiveness_of spec_example_input = Inr (57 / 125)"
  "heat_balance_error_of spec_example_input = Inr (200 / 19)"
  by (simp_all add: C_ratio_of_def effectiveness_of_def heat_balance_error_of_def
      float_div_def bind_err_def spec_example_calc)

text \<open>
  C1, as the specification states it: for the default counterflow input the run gives
  \<open>Q_hot = Q_cold = 627\<close>, \<open>LMTD\<close> about 72.36, area about 17.33, effectiveness about 0.480,
  NTU about 0.830 and a heat balance error of 0. The code gives \<open>Q_cold = 3 * 4.18 * 45 =
  564.3\<close>, so the duties differ, the heat balance error is not 0, and the values computed
  from \<open>Q_avg\<close> are not those of the claim; \<open>LMTD\<close> is below 72.25.
\<close>

theorem spec_example_counterexample:
  "Q_hot_of spec_example_input = 627 \<and> Q_cold_of spec_example_input \<noteq> 627 \<and>
   Q_hot_of spec_example_input \<noteq> Q_cold_of spec_example_input \<and>
   heat_balance_error_of spec_example_input \<noteq> Inr 0 \<and>
   LMTD_of spec_example_input = Inr (NpFloat (Fin (15 / ln (16 / 13)))) \<and>
   15 / ln (16 / 13 :: real) < 72.25 \<and>
   effectiveness_of spec_example_input = Inr 0.456"
proof -
  have "0 < ln (16 / 13 :: real)" "15 / ln (16 / 13 :: real) < 72.25"
    using ln_16_13_lower by (simp_all add: field_simps)
  then show ?thesis
    by (simp add: spec_example_LMTD spec_example_rest spec_example_calc)
qed

text \<open>
  C1, amended: for that input the run completes with \<open>Q_hot = 627\<close>, \<open>Q_cold = 564.3\<close>,
  \<open>Q_avg = 595.65\<close>, \<open>dT1 = 80\<close>, \<open>dT2 = 65\<close>, \<open>LMTD = 15 / ln (16 / 13)\<close> (between
  72.236 and 72.244), an area between 16.489 and 16.492, \<open>C_min = C_hot = 10450\<close>,
  \<open>C_max = 12540\<close>, \<open>C_ratio = 5 / 6\<close>, effectiveness 0.456, NTU between 0.7889 and
  0.7891, and a heat balance error of \<open>200 / 19\<close> percent (about 10.53).
\<close>

theorem spec_example_values:
  "\<exists>r l a n. evaluate spec_example_input = Inr r \<and>
     Q_hot r = 627 \<and> Q_cold r = 564.3 \<and> Q_avg r = 595.65 \<and> Q r = 595650 \<and>
     dT1 r = 80 \<and> dT2 r = 65 \<and>
     LMTD r = NpFloat (Fin l) \<and> l = 15 / ln (16 / 13) \<and> 72.236 < l \<and> l < 72.244 \<and>
     A r = NpFloat (Fin a) \<and> 16.489 < a \<and> a < 16.492 \<and>
     C_hot r = 10450 \<and> C_cold r = 12540 \<and> C_min r = 10450 \<and> C_max r = 12540 \<and>
     C_ratio r = 5 / 6 \<and> Q_max r = 1306250 \<and> effectiveness r = 0.456 \<and>
     NTU r = NpFloat (Fin n) \<and> 0.7889 < n \<and> n < 0.7891 \<and>
     heat_balance_error r = 200 / 19"
proof -
  let ?L = "ln (16 / 13 :: real)"
  have b: "20763 / 100000 < ?L" "?L < 20765 / 100000"
    by (rule ln_16_13_lower, rule ln_16_13_upper)
  then have pos: "0 < ?L" by linarith
  have l: "72.236 < 15 / ?L" "15 / ?L < 72.244"
    using b pos by (simp_all add: field_simps)
  have a: "16.489 < 595650 / (500 * (15 / ?L))" "595650 / (500 * (15 / ?L)) < 16.492"
    using b pos by (simp_all add: field_simps)
  have n: "0.7889 < 500 * (595650 / (500 * (15 / ?L))) / 10450"
    "500 * (595650 / (500 * (15 / ?L))) / 10450 < 0.7891"
    using b pos by (simp_all add: field_simps)
  define r where "r =
    \<lparr> Q_hot = 627, Q_cold = 5643 / 10, Q_avg = 59565 / 100, Q = 595650, dT1 = 80,
      dT2 = 65, LMTD = NpFloat (Fin (15 / ?L)),
      A = NpFloat (Fin (595650 / (500 * (15 / ?L)))),
      C_hot = 10450, C_cold = 12540, C_min = 10450, C_max = 12540, C_ratio = 5 / 6,
      Q_max = 1306250, effectiveness = 57 / 125,
      NTU = NpFloat (Fin (500 * (595650 / (500 * (15 / ?L))) / 10450)),
      heat_balance_error = 200 / 19 \<rparr>"
  have e: "evaluate spec_example_input = Inr r"
    by (simp only: r_def evaluate_def spec_example_LMTD spec_example_A spec_example_NTU
        spec_example_rest spec_example_calc bind_err_def sum.case)
  have f: "Q_hot r = 627" "Q_cold r = 564.3" "Q_avg r = 595.65" "Q r = 595650"
    "dT1 r = 80" "dT2 r = 65" "C_hot r = 10450" "C_cold r = 12540" "C_min r = 10450"
    "C_max r = 12540" "C_ratio r = 5 / 6" "Q_max r = 1306250" "effectiveness r = 0.456"
    "heat_balance_error r = 200 / 19"
    by (simp_all add: r_def)
  have g: "LMTD r = NpFloat (Fin (15 / ?L))"
    "A r = NpFloat (Fin (595650 / (500 * (15 / ?L))))"
    "NTU r = NpFloat (Fin (500 * (595650 / (500 * (15 / ?L))) / 10450))"
    by (simp_all only: r_def exchanger_result.simps)
  from e f g l a n show ?thesis by blast
qed

end

